theory Spec2Isabelle
  imports Main "HOL-Library.Char_ord" "HOL-Library.List_Lexorder" "HOL-Library.Sublist"
    "HOL-Library.Multiset"
begin

section \<open>Data model\<close>

text \<open>
  The server keeps two collections, \<open>users\<close> and \<open>assignments\<close> (with the submissions
  embedded). Object ids are kept in their string form (\<open>_id.toString()\<close>), dates are
  milliseconds since the epoch (\<open>Date.getTime()\<close>). A JavaScript string is the list of
  its UTF-16 code units, each a \<open>char\<close>: the strings of the model are those whose code
  units are below 256, and \<open>length\<close> is the string's \<open>length\<close>. One request is served at
  one instant \<open>now\<close>: every \<open>new Date()\<close> and
  \<open>Date.now()\<close> of a handler reads that value.
\<close>

datatype role = Admin | Professor | Student

type_synonym oid = string
type_synonym date = int

text \<open>\<open>IUser\<close> of \<open>models/User.ts\<close>.\<close>

record user =
  userId :: oid
  userName :: string
  userEmail :: string
  passwordHash :: string
  userRole :: role
  userCreatedAt :: date

text \<open>\<open>IAssignmentSubmission\<close> and \<open>IAssignment\<close> of \<open>models/Assignment.ts\<close>.\<close>

record submission =
  submissionId :: oid
  studentId :: oid
  content :: string
  fileUrl :: "string option"
  submittedAt :: date

record assignment =
  assignmentId :: oid
  title :: string
  description :: string
  dueDate :: date
  createdBy :: oid
  submissions :: "submission list"
  createdAt :: date
  updatedAt :: date

record db =
  users :: "user list"
  assignments :: "assignment list"

text \<open>\<open>AuthUser\<close> of \<open>middleware/auth.ts\<close>: the identity a verified token carries.\<close>

record authUser =
  auId :: oid
  auName :: string
  auEmail :: string
  auRole :: role

text \<open>
  The libraries the handlers call are parameters of the model: the format checks of the
  schema validator, \<open>ObjectId.isValid\<close>, the password hash and its comparison, and the
  token signature.
\<close>

record lib =
  isEmail :: "string \<Rightarrow> bool"
  parseDatetime :: "string \<Rightarrow> date option"
  isUrl :: "string \<Rightarrow> bool"
  isValidObjectId :: "string \<Rightarrow> bool"
  bcryptHash :: "string \<Rightarrow> string"
  bcryptCompare :: "string \<Rightarrow> string \<Rightarrow> bool"
  jwtSign :: "authUser \<Rightarrow> string"

text \<open>
  A handler answers \<open>c.json(body, status)\<close>. An error answer is \<open>Failure status error extra\<close>,
  where \<open>extra\<close> is the second field some error bodies carry; a success is the \<open>Inr\<close> of the
  handler's own payload.
\<close>

datatype extra = NoExtra | Details "string list" | DueDate date | SubmissionCount nat

datatype failure = Failure (status: nat) (error: string) (extra: extra)

section \<open>Strings\<close>

text \<open>
  White space and line terminators of the language, as far as they are code units below
  256: tab, line feed, vertical tab, form feed, carriage return, space and the no-break
  space U+00A0.
\<close>

definition isSpace :: "char \<Rightarrow> bool" where
  "isSpace c = (c \<in> set [CHR '' '', CHR 0x09, CHR 0x0A, CHR 0x0B, CHR 0x0C, CHR 0x0D, CHR 0xA0])"

text \<open>\<open>String.prototype.trim\<close>.\<close>

definition trim :: "string \<Rightarrow> string" where
  "trim s = rev (dropWhile isSpace (rev (dropWhile isSpace s)))"

text \<open>
  \<open>String.prototype.toLowerCase\<close>: the letters A to Z, and U+00C0 to U+00DE without the
  multiplication sign U+00D7, move up by 32.
\<close>

definition lowerChar :: "char \<Rightarrow> char" where
  "lowerChar c =
     (let n = (of_char c :: nat)
      in if (65 \<le> n \<and> n \<le> 90) \<or> (192 \<le> n \<and> n \<le> 222 \<and> n \<noteq> 215) then char_of (n + 32) else c)"

definition toLowerCase :: "string \<Rightarrow> string" where
  "toLowerCase s = map lowerChar s"

text \<open>The zod enum \<open>['admin', 'professor', 'student']\<close>.\<close>

definition parseRole :: "string \<Rightarrow> role option" where
  "parseRole s =
     (if s = ''admin'' then Some Admin
      else if s = ''professor'' then Some Professor
      else if s = ''student'' then Some Student
      else None)"

section \<open>Authentication (\<open>controllers/auth.controller.ts\<close>)\<close>

record registerRequest =
  regName :: string
  regEmail :: string
  regPassword :: string
  regRole :: "string option"

record loginRequest =
  loginEmail :: string
  loginPassword :: string

record authResponse =
  arUser :: authUser
  arToken :: string

text \<open>\<open>registerSchema.safeParse\<close>: the issues found, none when the body is accepted.\<close>

definition registerSchema :: "lib \<Rightarrow> registerRequest \<Rightarrow> string list" where
  "registerSchema L r =
     (if length (regName r) < 2 then [''Name must be at least 2 characters''] else []) @
     (if isEmail L (regEmail r) then [] else [''Please enter a valid email'']) @
     (if length (regPassword r) < 6 then [''Password must be at least 6 characters''] else []) @
     (case regRole r of
        None \<Rightarrow> []
      | Some s \<Rightarrow> (case parseRole s of None \<Rightarrow> [''Invalid enum value''] | Some _ \<Rightarrow> []))"

definition loginSchema :: "lib \<Rightarrow> loginRequest \<Rightarrow> string list" where
  "loginSchema L r =
     (if isEmail L (loginEmail r) then [] else [''Please enter a valid email'']) @
     (if length (loginPassword r) < 6 then [''Password must be at least 6 characters''] else [])"

text \<open>
  \<open>User.findOne({ email })\<close>: the schema's setters (\<open>lowercase\<close>, \<open>trim\<close>) are applied to
  the value of the filter as they are to a stored one.
\<close>

definition castEmail :: "string \<Rightarrow> string" where
  "castEmail e = trim (toLowerCase e)"

definition findUserByEmail :: "db \<Rightarrow> string \<Rightarrow> user option" where
  "findUserByEmail d e = find (\<lambda>u. userEmail u = castEmail e) (users d)"

definition findUserById :: "db \<Rightarrow> oid \<Rightarrow> user option" where
  "findUserById d i = find (\<lambda>u. userId u = i) (users d)"

text \<open>
  \<open>User.create\<close>: the schema of \<open>models/User.ts\<close> trims the name and lowercases the
  address, validates (name of at least 2 characters, address and hash required) and
  inserts under the unique index on the address; \<open>None\<close> is the error it throws.
\<close>

definition createUser :: "date \<Rightarrow> oid \<Rightarrow> string \<Rightarrow> string \<Rightarrow> string \<Rightarrow> role \<Rightarrow> db \<Rightarrow> (user \<times> db) option" where
  "createUser now newId nm em ph r d =
     (let u = \<lparr> userId = newId, userName = trim nm, userEmail = castEmail em,
                passwordHash = ph, userRole = r, userCreatedAt = now \<rparr>
      in if length (userName u) < 2 \<or> userEmail u = [] \<or> ph = [] then None
         else if list_ex (\<lambda>v. userEmail v = userEmail u) (users d) then None
         else Some (u, d\<lparr>users := users d @ [u]\<rparr>))"

definition toAuthUser :: "user \<Rightarrow> authUser" where
  "toAuthUser u = \<lparr> auId = userId u, auName = userName u, auEmail = userEmail u, auRole = userRole u \<rparr>"

definition registerUser :: "lib \<Rightarrow> date \<Rightarrow> oid \<Rightarrow> registerRequest \<Rightarrow> db \<Rightarrow> (failure + authResponse) \<times> db" where
  "registerUser L now newId body d =
     (let issues = registerSchema L body in
      if issues \<noteq> [] then (Inl (Failure 400 ''Validation failed'' (Details issues)), d)
      else case findUserByEmail d (regEmail body) of
        Some existingUser \<Rightarrow> (Inl (Failure 409 ''Email already registered'' NoExtra), d)
      | None \<Rightarrow>
          let userCount = length (users d);
              r = (if userCount = 0 then Admin else Student);
              ph = bcryptHash L (regPassword body)
          in case createUser now newId (regName body) (regEmail body) ph r d of
               None \<Rightarrow> (Inl (Failure 500 ''Registration failed'' NoExtra), d)
             | Some (newUser, d') \<Rightarrow>
                 let au = toAuthUser newUser
                 in (Inr \<lparr> arUser = au, arToken = jwtSign L au \<rparr>, d'))"

definition loginUser :: "lib \<Rightarrow> loginRequest \<Rightarrow> db \<Rightarrow> failure + authResponse" where
  "loginUser L body d =
     (let issues = loginSchema L body in
      if issues \<noteq> [] then Inl (Failure 400 ''Validation failed'' (Details issues))
      else case findUserByEmail d (loginEmail body) of
        None \<Rightarrow> Inl (Failure 401 ''Invalid email or password'' NoExtra)
      | Some u \<Rightarrow>
          if \<not> bcryptCompare L (loginPassword body) (passwordHash u)
          then Inl (Failure 401 ''Invalid email or password'' NoExtra)
          else let au = toAuthUser u in Inr \<lparr> arUser = au, arToken = jwtSign L au \<rparr>)"

text \<open>A sequence of registrations, each with its clock reading and its fresh id.\<close>

fun registerAll :: "lib \<Rightarrow> (date \<times> oid \<times> registerRequest) list \<Rightarrow> db \<Rightarrow> db" where
  "registerAll L [] d = d"
| "registerAll L ((now, newId, body) # rest) d = registerAll L rest (snd (registerUser L now newId body d))"

section \<open>The assignment model (\<open>models/Assignment.ts\<close>)\<close>

definition hasStudentSubmitted :: "assignment \<Rightarrow> oid \<Rightarrow> bool" where
  "hasStudentSubmitted a sid = list_ex (\<lambda>sub. studentId sub = sid) (submissions a)"

definition getSubmissionByStudent :: "assignment \<Rightarrow> oid \<Rightarrow> submission option" where
  "getSubmissionByStudent a sid = find (\<lambda>sub. studentId sub = sid) (submissions a)"

definition isOverdue :: "date \<Rightarrow> assignment \<Rightarrow> bool" where
  "isOverdue now a = (now > dueDate a)"

definition getSubmissionCount :: "assignment \<Rightarrow> nat" where
  "getSubmissionCount a = length (submissions a)"

text \<open>The validators of the schema's paths, on the values the setters (\<open>trim\<close>) produce.\<close>

definition dayMs :: int where
  "dayMs = 24 * 60 * 60 * 1000"

definition dueDateValidator :: "date \<Rightarrow> date \<Rightarrow> bool" where
  "dueDateValidator now d = (d > now - dayMs)"

definition titleValidator :: "string \<Rightarrow> bool" where
  "titleValidator t = (t \<noteq> [] \<and> 3 \<le> length t \<and> length t \<le> 200)"

definition descriptionValidator :: "string \<Rightarrow> bool" where
  "descriptionValidator t = (t \<noteq> [] \<and> 10 \<le> length t \<and> length t \<le> 10000)"

text \<open>The regular expression \<open>/^https?:\/\/.+/\<close> of the \<open>fileUrl\<close> validator.\<close>

definition dotPlus :: "string \<Rightarrow> bool" where
  "dotPlus r = (case r of [] \<Rightarrow> False | c # _ \<Rightarrow> c \<noteq> CHR 0x0A \<and> c \<noteq> CHR 0x0D)"

definition urlRegex :: "string \<Rightarrow> bool" where
  "urlRegex u = ((take 7 u = ''http://'' \<and> dotPlus (drop 7 u)) \<or> (take 8 u = ''https://'' \<and> dotPlus (drop 8 u)))"

definition fileUrlValidator :: "string option \<Rightarrow> bool" where
  "fileUrlValidator u = (case u of None \<Rightarrow> True | Some s \<Rightarrow> if s = [] then True else urlRegex s)"

definition submissionValidator :: "submission \<Rightarrow> bool" where
  "submissionValidator sub =
     (studentId sub \<noteq> [] \<and> content sub \<noteq> [] \<and> length (content sub) \<le> 5000 \<and> fileUrlValidator (fileUrl sub))"

text \<open>
  The validation that \<open>save()\<close> runs before the hooks: every path of the document, changed
  or loaded, is validated, the submissions one by one. The due date's validator reads
  the clock, so a stored due date is checked again at every save.
\<close>

definition validateAssignment :: "date \<Rightarrow> assignment \<Rightarrow> bool" where
  "validateAssignment now a =
     (titleValidator (title a) \<and> descriptionValidator (description a) \<and>
      dueDateValidator now (dueDate a) \<and> list_all submissionValidator (submissions a))"

text \<open>
  The two \<open>pre('save')\<close> hooks; \<open>Some msg\<close> is \<open>next(new Error(msg))\<close>. The first runs for
  a new document (or a changed creator), the second when the submissions changed: it
  takes the submissions added by this save and, for each of them, the other elements of
  the array.
\<close>

definition creatorHook :: "db \<Rightarrow> assignment \<Rightarrow> string option" where
  "creatorHook d a =
     (case findUserById d (createdBy a) of
        None \<Rightarrow> Some ''Creator not found''
      | Some creator \<Rightarrow>
          if userRole creator \<noteq> Professor \<and> userRole creator \<noteq> Admin
          then Some ''Only professors and admins can create assignments''
          else None)"

fun submissionsHook :: "db \<Rightarrow> submission list \<Rightarrow> submission list \<Rightarrow> string option" where
  "submissionsHook d subs [] = None"
| "submissionsHook d subs (sub # newSubmissions) =
     (case findUserById d (studentId sub) of
        None \<Rightarrow> Some ''Student not found''
      | Some student \<Rightarrow>
          if userRole student \<noteq> Student then Some ''Only students can submit assignments''
          else if list_ex (\<lambda>s. submissionId s \<noteq> submissionId sub \<and> studentId s = studentId sub) subs
          then Some ''Student has already submitted this assignment''
          else submissionsHook d subs newSubmissions)"

definition findAssignmentById :: "db \<Rightarrow> oid \<Rightarrow> assignment option" where
  "findAssignmentById d i = find (\<lambda>a. assignmentId a = i) (assignments d)"

text \<open>Writing a saved document back, and \<open>findByIdAndDelete\<close>.\<close>

definition replaceAssignment :: "assignment \<Rightarrow> db \<Rightarrow> db" where
  "replaceAssignment a d =
     d\<lparr>assignments := map (\<lambda>x. if assignmentId x = assignmentId a then a else x) (assignments d)\<rparr>"

definition findByIdAndDelete :: "oid \<Rightarrow> db \<Rightarrow> db" where
  "findByIdAndDelete i d = d\<lparr>assignments := filter (\<lambda>x. assignmentId x \<noteq> i) (assignments d)\<rparr>"

section \<open>Assignments (\<open>controllers/assignment.controller.ts\<close>)\<close>

record createAssignmentRequest =
  caTitle :: string
  caDescription :: string
  caDueDate :: string

record updateAssignmentRequest =
  uaTitle :: "string option"
  uaDescription :: "string option"
  uaDueDate :: "string option"

record submitAssignmentRequest =
  saContent :: string
  saFileUrl :: "string option"

record creatorInfo =
  ciId :: oid
  ciName :: string
  ciEmail :: string

record assignmentListResponse =
  alId :: oid
  alTitle :: string
  alDescription :: string
  alDueDate :: date
  alCreatedBy :: creatorInfo
  alSubmissionCount :: nat
  alIsOverdue :: bool
  alCreatedAt :: date
  alUpdatedAt :: date

definition titleIssues :: "string \<Rightarrow> string list" where
  "titleIssues t =
     (if length t < 3 then [''Title must be at least 3 characters''] else []) @
     (if length t > 200 then [''Title cannot exceed 200 characters''] else [])"

definition descriptionIssues :: "string \<Rightarrow> string list" where
  "descriptionIssues t =
     (if length t < 10 then [''Description must be at least 10 characters''] else []) @
     (if length t > 10000 then [''Description cannot exceed 10000 characters''] else [])"

definition dueDateIssues :: "lib \<Rightarrow> date \<Rightarrow> string \<Rightarrow> string list" where
  "dueDateIssues L now s =
     (case parseDatetime L s of
        None \<Rightarrow> [''Invalid date format'']
      | Some date \<Rightarrow> if date > now - dayMs then [] else [''Due date must be in the future''])"

text \<open>\<open>createAssignmentSchema.safeParse\<close>: the issues, or the parsed (trimmed) data.\<close>

definition createAssignmentSchema :: "lib \<Rightarrow> date \<Rightarrow> createAssignmentRequest \<Rightarrow> string list + (string \<times> string \<times> date)" where
  "createAssignmentSchema L now b =
     (let issues = titleIssues (caTitle b) @ descriptionIssues (caDescription b) @ dueDateIssues L now (caDueDate b)
      in case parseDatetime L (caDueDate b) of
           Some date \<Rightarrow> if issues = [] then Inr (trim (caTitle b), trim (caDescription b), date) else Inl issues
         | None \<Rightarrow> Inl issues)"

text \<open>\<open>updateAssignmentSchema = createAssignmentSchema.partial()\<close>: every field optional.\<close>

definition updateAssignmentSchema :: "lib \<Rightarrow> date \<Rightarrow> updateAssignmentRequest \<Rightarrow> string list + (string option \<times> string option \<times> date option)" where
  "updateAssignmentSchema L now b =
     (let issues = (case uaTitle b of None \<Rightarrow> [] | Some t \<Rightarrow> titleIssues t) @
                   (case uaDescription b of None \<Rightarrow> [] | Some t \<Rightarrow> descriptionIssues t) @
                   (case uaDueDate b of None \<Rightarrow> [] | Some s \<Rightarrow> dueDateIssues L now s)
      in if issues = []
         then Inr (map_option trim (uaTitle b), map_option trim (uaDescription b),
                   (case uaDueDate b of None \<Rightarrow> None | Some s \<Rightarrow> parseDatetime L s))
         else Inl issues)"

text \<open>
  \<open>submitAssignmentSchema.safeParse\<close>; the empty string given as the file URL becomes
  \<open>undefined\<close>.
\<close>

definition submitAssignmentSchema :: "lib \<Rightarrow> submitAssignmentRequest \<Rightarrow> string list + (string \<times> string option)" where
  "submitAssignmentSchema L b =
     (let issues = (if length (saContent b) < 1 then [''Submission content is required''] else []) @
                   (if length (saContent b) > 5000 then [''Submission content cannot exceed 5000 characters''] else []) @
                   (case saFileUrl b of
                      None \<Rightarrow> []
                    | Some u \<Rightarrow> if isUrl L u \<or> u = [] then [] else [''Invalid input''])
      in if issues = []
         then Inr (trim (saContent b), (case saFileUrl b of None \<Rightarrow> None | Some u \<Rightarrow> if u = [] then None else Some u))
         else Inl issues)"

text \<open>
  The response of one assignment, after \<open>populate('createdBy', 'name email role')\<close>:
  \<open>None\<close> when the creator does not resolve (reading \<open>_id\<close> of \<open>null\<close> throws).
\<close>

definition toListResponse :: "date \<Rightarrow> db \<Rightarrow> assignment \<Rightarrow> assignmentListResponse option" where
  "toListResponse now d a =
     (case findUserById d (createdBy a) of
        None \<Rightarrow> None
      | Some c \<Rightarrow> Some \<lparr> alId = assignmentId a, alTitle = title a, alDescription = description a,
                         alDueDate = dueDate a,
                         alCreatedBy = \<lparr> ciId = userId c, ciName = userName c, ciEmail = userEmail c \<rparr>,
                         alSubmissionCount = getSubmissionCount a, alIsOverdue = isOverdue now a,
                         alCreatedAt = createdAt a, alUpdatedAt = updatedAt a \<rparr>)"

definition canManage :: "authUser option \<Rightarrow> bool" where
  "canManage currentUser = (case currentUser of None \<Rightarrow> False | Some cu \<Rightarrow> auRole cu = Professor \<or> auRole cu = Admin)"

definition createAssignment :: "lib \<Rightarrow> date \<Rightarrow> oid \<Rightarrow> authUser option \<Rightarrow> createAssignmentRequest \<Rightarrow> db \<Rightarrow> (failure + assignmentListResponse) \<times> db" where
  "createAssignment L now newId currentUser body d =
     (case currentUser of
        None \<Rightarrow> (Inl (Failure 403 ''Only professors and admins can create assignments'' NoExtra), d)
      | Some cu \<Rightarrow>
          if \<not> canManage currentUser
          then (Inl (Failure 403 ''Only professors and admins can create assignments'' NoExtra), d)
          else case createAssignmentSchema L now body of
            Inl issues \<Rightarrow> (Inl (Failure 400 ''Validation failed'' (Details issues)), d)
          | Inr (t, desc, due) \<Rightarrow>
              if \<not> isValidObjectId L (auId cu)
              then (Inl (Failure 500 ''Failed to create assignment'' NoExtra), d)
              else
                let a = \<lparr> assignmentId = newId, title = t, description = desc, dueDate = due,
                          createdBy = auId cu, submissions = [], createdAt = now, updatedAt = now \<rparr>
                in if \<not> validateAssignment now a
                   then (Inl (Failure 500 ''Failed to create assignment'' NoExtra), d)
                   else case creatorHook d a of
                     Some msg \<Rightarrow>
                       if sublist ''Only professors and admins'' msg
                       then (Inl (Failure 403 msg NoExtra), d)
                       else (Inl (Failure 500 ''Failed to create assignment'' NoExtra), d)
                   | None \<Rightarrow>
                       let d' = d\<lparr>assignments := assignments d @ [a]\<rparr>
                       in case toListResponse now d' a of
                            None \<Rightarrow> (Inl (Failure 500 ''Failed to create assignment'' NoExtra), d')
                          | Some response \<Rightarrow> (Inr response, d'))"

definition isOwnerOrAdmin :: "authUser \<Rightarrow> assignment \<Rightarrow> bool" where
  "isOwnerOrAdmin cu a = (\<not> (auRole cu = Professor \<and> createdBy a \<noteq> auId cu))"

text \<open>
  \<open>assignment.save()\<close> of a loaded document: the whole document is validated, also when
  nothing changed; \<open>None\<close> is the validation error. A document that changed is written
  with a new \<open>updatedAt\<close>, one that did not change is not written.
\<close>

definition saveUpdated :: "date \<Rightarrow> assignment \<Rightarrow> assignment \<Rightarrow> assignment option" where
  "saveUpdated now old a =
     (if \<not> validateAssignment now a then None
      else if a = old then Some a
      else Some (a\<lparr>updatedAt := now\<rparr>))"

definition updateAssignment :: "lib \<Rightarrow> date \<Rightarrow> authUser option \<Rightarrow> string \<Rightarrow> updateAssignmentRequest \<Rightarrow> db \<Rightarrow> (failure + assignmentListResponse) \<times> db" where
  "updateAssignment L now currentUser aid body d =
     (case currentUser of
        None \<Rightarrow> (Inl (Failure 403 ''Only professors and admins can update assignments'' NoExtra), d)
      | Some cu \<Rightarrow>
          if \<not> canManage currentUser
          then (Inl (Failure 403 ''Only professors and admins can update assignments'' NoExtra), d)
          else if \<not> isValidObjectId L aid
          then (Inl (Failure 400 ''Invalid assignment ID'' NoExtra), d)
          else case updateAssignmentSchema L now body of
            Inl issues \<Rightarrow> (Inl (Failure 400 ''Validation failed'' (Details issues)), d)
          | Inr (t, desc, due) \<Rightarrow>
              (case findAssignmentById d aid of
                 None \<Rightarrow> (Inl (Failure 404 ''Assignment not found'' NoExtra), d)
               | Some a \<Rightarrow>
                   if \<not> isOwnerOrAdmin cu a
                   then (Inl (Failure 403 ''Access denied'' NoExtra), d)
                   else
                     let a1 = (case t of None \<Rightarrow> a | Some v \<Rightarrow> a\<lparr>title := v\<rparr>);
                         a2 = (case desc of None \<Rightarrow> a1 | Some v \<Rightarrow> a1\<lparr>description := v\<rparr>);
                         a3 = (case due of None \<Rightarrow> a2 | Some v \<Rightarrow> a2\<lparr>dueDate := v\<rparr>)
                     in case saveUpdated now a a3 of
                          None \<Rightarrow> (Inl (Failure 500 ''Failed to update assignment'' NoExtra), d)
                        | Some saved \<Rightarrow>
                            let d' = replaceAssignment saved d
                            in case toListResponse now d' saved of
                                 None \<Rightarrow> (Inl (Failure 500 ''Failed to update assignment'' NoExtra), d')
                               | Some response \<Rightarrow> (Inr response, d')))"

definition deleteAssignment :: "lib \<Rightarrow> authUser option \<Rightarrow> string \<Rightarrow> db \<Rightarrow> (failure + string) \<times> db" where
  "deleteAssignment L currentUser aid d =
     (case currentUser of
        None \<Rightarrow> (Inl (Failure 403 ''Only professors and admins can delete assignments'' NoExtra), d)
      | Some cu \<Rightarrow>
          if \<not> canManage currentUser
          then (Inl (Failure 403 ''Only professors and admins can delete assignments'' NoExtra), d)
          else if \<not> isValidObjectId L aid
          then (Inl (Failure 400 ''Invalid assignment ID'' NoExtra), d)
          else case findAssignmentById d aid of
            None \<Rightarrow> (Inl (Failure 404 ''Assignment not found'' NoExtra), d)
          | Some a \<Rightarrow>
              if \<not> isOwnerOrAdmin cu a
              then (Inl (Failure 403 ''Access denied'' NoExtra), d)
              else if length (submissions a) > 0
              then (Inl (Failure 400 ''Cannot delete assignment with existing submissions''
                          (SubmissionCount (length (submissions a)))), d)
              else (Inr ''Assignment deleted successfully'', findByIdAndDelete aid d))"

record submitResponse =
  srMessage :: string
  srSubmittedAt :: date

definition submitAssignment :: "lib \<Rightarrow> date \<Rightarrow> oid \<Rightarrow> authUser option \<Rightarrow> string \<Rightarrow> submitAssignmentRequest \<Rightarrow> db \<Rightarrow> (failure + submitResponse) \<times> db" where
  "submitAssignment L now newId currentUser aid body d =
     (case currentUser of
        None \<Rightarrow> (Inl (Failure 403 ''Only students can submit assignments'' NoExtra), d)
      | Some cu \<Rightarrow>
          if auRole cu \<noteq> Student
          then (Inl (Failure 403 ''Only students can submit assignments'' NoExtra), d)
          else if \<not> isValidObjectId L aid
          then (Inl (Failure 400 ''Invalid assignment ID'' NoExtra), d)
          else case submitAssignmentSchema L body of
            Inl issues \<Rightarrow> (Inl (Failure 400 ''Validation failed'' (Details issues)), d)
          | Inr (cont, url) \<Rightarrow>
              (case findAssignmentById d aid of
                 None \<Rightarrow> (Inl (Failure 404 ''Assignment not found'' NoExtra), d)
               | Some a \<Rightarrow>
                   if isOverdue now a
                   then (Inl (Failure 400 ''Assignment submission deadline has passed'' (DueDate (dueDate a))), d)
                   else if hasStudentSubmitted a (auId cu)
                   then (Inl (Failure 400 ''You have already submitted this assignment'' NoExtra), d)
                   else if \<not> isValidObjectId L (auId cu)
                   then (Inl (Failure 500 ''Failed to submit assignment'' NoExtra), d)
                   else
                     let sub = \<lparr> submissionId = newId, studentId = auId cu, content = cont,
                                 fileUrl = map_option trim url, submittedAt = now \<rparr>;
                         subs = submissions a @ [sub]
                     in if \<not> validateAssignment now (a\<lparr>submissions := subs\<rparr>)
                        then (Inl (Failure 500 ''Failed to submit assignment'' NoExtra), d)
                        else case submissionsHook d subs [sub] of
                          Some msg \<Rightarrow>
                            if sublist ''Student has already submitted'' msg
                            then (Inl (Failure 400 msg NoExtra), d)
                            else (Inl (Failure 500 ''Failed to submit assignment'' NoExtra), d)
                        | None \<Rightarrow>
                            (Inr \<lparr> srMessage = ''Assignment submitted successfully'', srSubmittedAt = now \<rparr>,
                             replaceAssignment (a\<lparr>submissions := subs, updatedAt := now\<rparr>) d)))"

subsection \<open>The listing\<close>

datatype statusFilter = Upcoming | Overdue | AllStatus
datatype sortField = ByDueDate | ByCreatedAt | ByTitle
datatype sortDir = Asc | Desc

record assignmentQuery =
  qPage :: "string option"
  qLimit :: "string option"
  qStatus :: "string option"
  qSortBy :: "string option"
  qSortOrder :: "string option"

record pagination =
  pgPage :: int
  pgLimit :: int
  pgTotal :: nat
  pgPages :: "int option"
  pgHasNext :: bool
  pgHasPrev :: bool

text \<open>
  \<open>parseInt(val, 10)\<close>: leading white space, an optional sign, then the longest run of
  decimal digits; \<open>None\<close> is \<open>NaN\<close>.
\<close>

definition isDigit :: "char \<Rightarrow> bool" where
  "isDigit c = (48 \<le> (of_char c :: nat) \<and> (of_char c :: nat) \<le> 57)"

definition digitsValue :: "string \<Rightarrow> int" where
  "digitsValue ds = foldl (\<lambda>acc c. acc * 10 + (int (of_char c) - 48)) 0 ds"

definition parseInt :: "string \<Rightarrow> int option" where
  "parseInt s =
     (let s1 = dropWhile isSpace s;
          neg = (take 1 s1 = ''-'');
          s2 = (if take 1 s1 = ''-'' \<or> take 1 s1 = ''+'' then drop 1 s1 else s1);
          ds = takeWhile isDigit s2
      in if ds = [] then None else Some (if neg then - digitsValue ds else digitsValue ds))"

definition orDefault :: "string option \<Rightarrow> int \<Rightarrow> int option" where
  "orDefault v dflt = (case v of None \<Rightarrow> Some dflt | Some s \<Rightarrow> if s = [] then Some dflt else parseInt s)"

definition parseStatus :: "string option \<Rightarrow> statusFilter option" where
  "parseStatus v =
     (case v of
        None \<Rightarrow> Some AllStatus
      | Some s \<Rightarrow> if s = ''upcoming'' then Some Upcoming else if s = ''overdue'' then Some Overdue
                  else if s = ''all'' then Some AllStatus else None)"

definition parseSortBy :: "string option \<Rightarrow> sortField option" where
  "parseSortBy v =
     (case v of
        None \<Rightarrow> Some ByDueDate
      | Some s \<Rightarrow> if s = ''dueDate'' then Some ByDueDate else if s = ''createdAt'' then Some ByCreatedAt
                  else if s = ''title'' then Some ByTitle else None)"

definition parseSortOrder :: "string option \<Rightarrow> sortDir option" where
  "parseSortOrder v =
     (case v of
        None \<Rightarrow> Some Asc
      | Some s \<Rightarrow> if s = ''asc'' then Some Asc else if s = ''desc'' then Some Desc else None)"

definition assignmentQuerySchema :: "assignmentQuery \<Rightarrow> string list + (int option \<times> int option \<times> statusFilter \<times> sortField \<times> sortDir)" where
  "assignmentQuerySchema q =
     (case (parseStatus (qStatus q), parseSortBy (qSortBy q), parseSortOrder (qSortOrder q)) of
        (Some st, Some sb, Some so) \<Rightarrow> Inr (orDefault (qPage q) 1, orDefault (qLimit q) 10, st, sb, so)
      | (st, sb, so) \<Rightarrow>
          Inl ((if st = None then [''Invalid enum value''] else []) @
               (if sb = None then [''Invalid enum value''] else []) @
               (if so = None then [''Invalid enum value''] else [])))"

text \<open>The filter of the query (\<open>query.getFilter()\<close>): the role's part and the status's part.\<close>

definition roleFilter :: "authUser \<Rightarrow> assignment \<Rightarrow> bool" where
  "roleFilter cu a = (if auRole cu = Professor then createdBy a = auId cu else True)"

definition statusMatches :: "date \<Rightarrow> statusFilter \<Rightarrow> assignment \<Rightarrow> bool" where
  "statusMatches now st a =
     (case st of Upcoming \<Rightarrow> dueDate a \<ge> now | Overdue \<Rightarrow> dueDate a < now | AllStatus \<Rightarrow> True)"

definition matching :: "date \<Rightarrow> authUser \<Rightarrow> statusFilter \<Rightarrow> db \<Rightarrow> assignment list" where
  "matching now cu st d = filter (\<lambda>a. roleFilter cu a \<and> statusMatches now st a) (assignments d)"

text \<open>
  \<open>sort\<close>, \<open>skip\<close> and \<open>limit\<close> of the query engine: documents with equal keys keep the
  order of the collection when ascending; a limit of 0 is no limit, a negative limit
  is its absolute value. The engine rejects a negative \<open>skip\<close> and a \<open>page\<close> or \<open>limit\<close>
  that is \<open>NaN\<close>; the handler's \<open>catch\<close> answers 500 then.
\<close>

definition sortAssignments :: "sortField \<Rightarrow> sortDir \<Rightarrow> assignment list \<Rightarrow> assignment list" where
  "sortAssignments sb so xs =
     (let sorted = (case sb of ByDueDate \<Rightarrow> sort_key dueDate xs
                             | ByCreatedAt \<Rightarrow> sort_key createdAt xs
                             | ByTitle \<Rightarrow> sort_key title xs)
      in if so = Desc then rev sorted else sorted)"

definition limitTo :: "int \<Rightarrow> 'a list \<Rightarrow> 'a list" where
  "limitTo n xs = (if n = 0 then xs else take (nat \<bar>n\<bar>) xs)"

definition getAssignments :: "lib \<Rightarrow> date \<Rightarrow> authUser option \<Rightarrow> assignmentQuery \<Rightarrow> db \<Rightarrow> failure + (assignmentListResponse list \<times> pagination)" where
  "getAssignments L now currentUser q d =
     (case currentUser of
        None \<Rightarrow> Inl (Failure 401 ''Authentication required'' NoExtra)
      | Some cu \<Rightarrow>
          (case assignmentQuerySchema q of
             Inl issues \<Rightarrow> Inl (Failure 400 ''Invalid query parameters'' (Details issues))
           | Inr (Some page, Some limit, st, sb, so) \<Rightarrow>
               let skip = (page - 1) * limit
               in if (auRole cu = Professor \<and> \<not> isValidObjectId L (auId cu)) \<or> skip < 0
                  then Inl (Failure 500 ''Failed to fetch assignments'' NoExtra)
                  else
                    let found = limitTo limit (drop (nat skip) (sortAssignments sb so (matching now cu st d)));
                        total = length (matching now cu st d)
                    in (case those (map (toListResponse now d) found) of
                          None \<Rightarrow> Inl (Failure 500 ''Failed to fetch assignments'' NoExtra)
                        | Some response \<Rightarrow>
                            Inr (response,
                                 \<lparr> pgPage = page, pgLimit = limit, pgTotal = total,
                                   pgPages = (if limit = 0 then None else Some (- ((- int total) div limit))),
                                   pgHasNext = (page * limit < int total),
                                   pgHasPrev = (page > 1) \<rparr>))
           | Inr (_, _, st, sb, so) \<Rightarrow> Inl (Failure 500 ''Failed to fetch assignments'' NoExtra)))"

section \<open>User management (\<open>controllers/user.controller.ts\<close>)\<close>

record userListResponse =
  ulId :: oid
  ulName :: string
  ulEmail :: string
  ulRole :: role

definition replaceUser :: "user \<Rightarrow> db \<Rightarrow> db" where
  "replaceUser u d = d\<lparr>users := map (\<lambda>x. if userId x = userId u then u else x) (users d)\<rparr>"

text \<open>
  \<open>updateUserRole\<close>; \<open>uid\<close> is the path parameter, \<open>requested\<close> the \<open>role\<close> field of the
  body. \<open>User.findById\<close> throws on a string that is no object id. The validators of the
  user schema do not read the clock: a stored user passed them when it was created, and
  the new role is one of the enum, so the validation of \<open>save()\<close> passes.
\<close>

definition updateUserRole :: "lib \<Rightarrow> authUser option \<Rightarrow> string \<Rightarrow> string \<Rightarrow> db \<Rightarrow> (failure + userListResponse) \<times> db" where
  "updateUserRole L currentUser uid requested d =
     (case currentUser of
        None \<Rightarrow> (Inl (Failure 403 ''Admin access required'' NoExtra), d)
      | Some cu \<Rightarrow>
          if auRole cu \<noteq> Admin then (Inl (Failure 403 ''Admin access required'' NoExtra), d)
          else if uid = [] then (Inl (Failure 400 ''User ID is required'' NoExtra), d)
          else case parseRole requested of
            None \<Rightarrow> (Inl (Failure 400 ''Validation failed''
                             (Details [''Role must be admin, professor, or student''])), d)
          | Some r \<Rightarrow>
              if \<not> isValidObjectId L uid
              then (Inl (Failure 500 ''Failed to update user role'' NoExtra), d)
              else case findUserById d uid of
                None \<Rightarrow> (Inl (Failure 404 ''User not found'' NoExtra), d)
              | Some userToUpdate \<Rightarrow>
                  if userId userToUpdate = auId cu \<and> r \<noteq> Admin
                  then (Inl (Failure 400 ''You cannot change your own admin role'' NoExtra), d)
                  else
                    let updated = userToUpdate\<lparr>userRole := r\<rparr>
                    in (Inr \<lparr> ulId = userId updated, ulName = userName updated,
                               ulEmail = userEmail updated, ulRole = userRole updated \<rparr>,
                        replaceUser updated d))"

section \<open>Uploads (\<open>services/cloudinary.service.ts\<close>, \<open>controllers/upload.controller.ts\<close>)\<close>

record uploadedFile =
  buffer :: string
  originalName :: string
  mimeType :: string
  fileSize :: nat

datatype resourceType = AutoResource | ImageResource

text \<open>What \<open>uploadToCloudinary\<close> hands to the storage service, and what the service answers.\<close>

record upload =
  upBuffer :: string
  upOriginalName :: string
  upFolder :: string
  upPublicId :: "(oid \<times> date) option"
  upResourceType :: resourceType

record cloudinaryUploadResult =
  public_id :: string
  secure_url :: string
  format :: string
  bytes :: nat

record fileResponse =
  frUrl :: string
  frPublicId :: string
  frOriginalName :: string
  frFormat :: string
  frSize :: nat
  frUploadedAt :: date

text \<open>
  The storage service is a parameter: it answers an upload with an error message or a
  result. The uploads forwarded to it are the state \<open>sent\<close>.
\<close>

definition uploadToCloudinary :: "(upload \<Rightarrow> string + cloudinaryUploadResult) \<Rightarrow> upload \<Rightarrow> upload list \<Rightarrow> (string + cloudinaryUploadResult) \<times> upload list" where
  "uploadToCloudinary cloud up sent =
     (case cloud up of
        Inl msg \<Rightarrow> (Inl (''Upload failed: '' @ msg), sent @ [up])
      | Inr result \<Rightarrow> (Inr result, sent @ [up]))"

definition uploadAssignmentFile :: "(upload \<Rightarrow> string + cloudinaryUploadResult) \<Rightarrow> date \<Rightarrow> string \<Rightarrow> string \<Rightarrow> oid \<Rightarrow> string \<Rightarrow> upload list \<Rightarrow> (string + cloudinaryUploadResult) \<times> upload list" where
  "uploadAssignmentFile cloud now buf nm uid aid sent =
     uploadToCloudinary cloud
       \<lparr> upBuffer = buf, upOriginalName = nm, upFolder = ''social-media-platform/assignments/'' @ aid,
         upPublicId = Some (uid, now), upResourceType = AutoResource \<rparr> sent"

definition uploadPostImageService :: "(upload \<Rightarrow> string + cloudinaryUploadResult) \<Rightarrow> string \<Rightarrow> string \<Rightarrow> oid \<Rightarrow> upload list \<Rightarrow> (string + cloudinaryUploadResult) \<times> upload list" where
  "uploadPostImageService cloud buf nm uid sent =
     uploadToCloudinary cloud
       \<lparr> upBuffer = buf, upOriginalName = nm, upFolder = ''social-media-platform/posts/'' @ uid,
         upPublicId = None, upResourceType = ImageResource \<rparr> sent"

text \<open>
  \<open>extractFileFromRequest\<close>: its own \<open>catch\<close> replaces every error, also the one for a
  missing file, by \<open>Failed to process uploaded file\<close>.
\<close>

definition extractFileFromRequest :: "uploadedFile option \<Rightarrow> string + uploadedFile" where
  "extractFileFromRequest formFile =
     (case formFile of None \<Rightarrow> Inl ''Failed to process uploaded file'' | Some f \<Rightarrow> Inr f)"

definition maxFileSize :: nat where
  "maxFileSize = 10 * 1024 * 1024"

definition allowedTypes :: "string list" where
  "allowedTypes =
     [''application/pdf'',
      ''application/msword'',
      ''application/vnd.openxmlformats-officedocument.wordprocessingml.document'',
      ''text/plain'',
      ''image/jpeg'',
      ''image/png'',
      ''image/gif'',
      ''image/webp'',
      ''application/zip'',
      ''application/x-zip-compressed'']"

text \<open>\<open>validateFile\<close>: \<open>Inl msg\<close> is \<open>throw new Error(msg)\<close>.\<close>

definition validateFile :: "uploadedFile \<Rightarrow> string + bool" where
  "validateFile file =
     (if fileSize file > maxFileSize then Inl ''File size exceeds 10MB limit''
      else if mimeType file \<notin> set allowedTypes
      then Inl ''Invalid file type. Allowed types: PDF, DOC, DOCX, TXT, JPG, PNG, GIF, WEBP, ZIP''
      else Inr True)"

definition imageTypes :: "string list" where
  "imageTypes = [''image/jpeg'', ''image/png'', ''image/gif'', ''image/webp'']"

definition maxImageSize :: nat where
  "maxImageSize = 5 * 1024 * 1024"

text \<open>The \<open>catch\<close> blocks of the two upload handlers, on the message of the error caught.\<close>

definition catchAssignmentUpload :: "string \<Rightarrow> failure" where
  "catchAssignmentUpload msg =
     (if sublist ''Invalid file type'' msg \<or> sublist ''File size exceeds'' msg then Failure 400 msg NoExtra
      else if sublist ''No file provided'' msg then Failure 400 ''Please select a file to upload'' NoExtra
      else Failure 500 ''Failed to upload file'' NoExtra)"

definition catchImageUpload :: "string \<Rightarrow> failure" where
  "catchImageUpload msg =
     (if sublist ''Invalid file type'' msg \<or> sublist ''Image size exceeds'' msg then Failure 400 msg NoExtra
      else if sublist ''No file provided'' msg then Failure 400 ''Please select an image to upload'' NoExtra
      else Failure 500 ''Failed to upload image'' NoExtra)"

definition toFileResponse :: "date \<Rightarrow> uploadedFile \<Rightarrow> cloudinaryUploadResult \<Rightarrow> fileResponse" where
  "toFileResponse now f r =
     \<lparr> frUrl = secure_url r, frPublicId = public_id r, frOriginalName = originalName f,
       frFormat = format r, frSize = bytes r, frUploadedAt = now \<rparr>"

definition uploadAssignmentSubmission :: "lib \<Rightarrow> (upload \<Rightarrow> string + cloudinaryUploadResult) \<Rightarrow> bool \<Rightarrow> date \<Rightarrow> authUser option \<Rightarrow> string \<Rightarrow> uploadedFile option \<Rightarrow> db \<Rightarrow> upload list \<Rightarrow> (failure + fileResponse) \<times> upload list" where
  "uploadAssignmentSubmission L cloud configured now currentUser aid formFile d sent =
     (case currentUser of
        None \<Rightarrow> (Inl (Failure 403 ''Only students can upload assignment files'' NoExtra), sent)
      | Some cu \<Rightarrow>
          if auRole cu \<noteq> Student
          then (Inl (Failure 403 ''Only students can upload assignment files'' NoExtra), sent)
          else if \<not> configured
          then (Inl (Failure 503 ''File upload service not configured''
                      (Details [''Please configure Cloudinary credentials''])), sent)
          else if aid = [] \<or> \<not> isValidObjectId L aid
          then (Inl (Failure 400 ''Valid assignment ID is required'' NoExtra), sent)
          else case findAssignmentById d aid of
            None \<Rightarrow> (Inl (Failure 404 ''Assignment not found'' NoExtra), sent)
          | Some a \<Rightarrow>
              if isOverdue now a
              then (Inl (Failure 400 ''Assignment submission deadline has passed'' (DueDate (dueDate a))), sent)
              else case extractFileFromRequest formFile of
                Inl msg \<Rightarrow> (Inl (catchAssignmentUpload msg), sent)
              | Inr fileData \<Rightarrow>
                  (case validateFile fileData of
                     Inl msg \<Rightarrow> (Inl (catchAssignmentUpload msg), sent)
                   | Inr ok \<Rightarrow>
                       (case uploadAssignmentFile cloud now (buffer fileData) (originalName fileData) (auId cu) aid sent of
                          (Inl msg, sent') \<Rightarrow> (Inl (catchAssignmentUpload msg), sent')
                        | (Inr uploadResult, sent') \<Rightarrow> (Inr (toFileResponse now fileData uploadResult), sent'))))"

definition uploadPostImage :: "(upload \<Rightarrow> string + cloudinaryUploadResult) \<Rightarrow> bool \<Rightarrow> date \<Rightarrow> authUser option \<Rightarrow> uploadedFile option \<Rightarrow> upload list \<Rightarrow> (failure + fileResponse) \<times> upload list" where
  "uploadPostImage cloud configured now currentUser formFile sent =
     (case currentUser of
        None \<Rightarrow> (Inl (Failure 401 ''Authentication required'' NoExtra), sent)
      | Some cu \<Rightarrow>
          if \<not> configured
          then (Inl (Failure 503 ''Image upload service not configured''
                      (Details [''Please configure Cloudinary credentials''])), sent)
          else case extractFileFromRequest formFile of
            Inl msg \<Rightarrow> (Inl (catchImageUpload msg), sent)
          | Inr fileData \<Rightarrow>
              if mimeType fileData \<notin> set imageTypes
              then (Inl (Failure 400 ''Invalid file type. Only JPG, PNG, GIF, and WEBP images are allowed'' NoExtra), sent)
              else if fileSize fileData > maxImageSize
              then (Inl (Failure 400 ''Image size exceeds 5MB limit'' NoExtra), sent)
              else (case uploadPostImageService cloud (buffer fileData) (originalName fileData) (auId cu) sent of
                      (Inl msg, sent') \<Rightarrow> (Inl (catchImageUpload msg), sent')
                    | (Inr uploadResult, sent') \<Rightarrow> (Inr (toFileResponse now fileData uploadResult), sent')))"

section \<open>Sample data\<close>

text \<open>
  A concrete instance of the libraries and a small database, on which the theorems
  below are instantiated: an admin, two professors, a student and a second admin; one
  assignment of each professor, the first with a submission of the student.
\<close>

definition isHex :: "char \<Rightarrow> bool" where
  "isHex c = (isDigit c \<or> (97 \<le> (of_char c :: nat) \<and> (of_char c :: nat) \<le> 102))"

definition sampleLib :: lib where
  "sampleLib = \<lparr> isEmail = (\<lambda>s. CHR ''@'' \<in> set s \<and> \<not> list_ex isSpace s),
                 parseDatetime = parseInt,
                 isUrl = urlRegex,
                 isValidObjectId = (\<lambda>s. length s = 24 \<and> list_all isHex s),
                 bcryptHash = (\<lambda>p. ''$2a$10$'' @ p),
                 bcryptCompare = (\<lambda>p h. h = ''$2a$10$'' @ p),
                 jwtSign = (\<lambda>u. ''jwt.'' @ auId u) \<rparr>"

definition sampleCloud :: "upload \<Rightarrow> string + cloudinaryUploadResult" where
  "sampleCloud up = Inr \<lparr> public_id = upFolder up, secure_url = ''https://res.example/'' @ upOriginalName up,
                          format = ''bin'', bytes = length (upBuffer up) \<rparr>"

definition emptyDb :: db where
  "emptyDb = \<lparr> users = [], assignments = [] \<rparr>"

definition idAda :: oid where "idAda = ''64b000000000000000000001''"
definition idPaul :: oid where "idPaul = ''64b000000000000000000002''"
definition idQuinn :: oid where "idQuinn = ''64b000000000000000000003''"
definition idSam :: oid where "idSam = ''64b000000000000000000004''"
definition idZoe :: oid where "idZoe = ''64b000000000000000000005''"
definition idA1 :: oid where "idA1 = ''64c0000000000000000000a1''"
definition idA2 :: oid where "idA2 = ''64c0000000000000000000a2''"
definition idS1 :: oid where "idS1 = ''64d0000000000000000000b1''"
definition idNew :: oid where "idNew = ''64e0000000000000000000c1''"

definition ada :: user where
  "ada = \<lparr> userId = idAda, userName = ''Ada'', userEmail = ''ada@example.org'',
           passwordHash = ''$2a$10$secret1'', userRole = Admin, userCreatedAt = 1000 \<rparr>"
definition paul :: user where
  "paul = \<lparr> userId = idPaul, userName = ''Paul'', userEmail = ''paul@example.org'',
            passwordHash = ''$2a$10$secret2'', userRole = Professor, userCreatedAt = 2000 \<rparr>"
definition quinn :: user where
  "quinn = \<lparr> userId = idQuinn, userName = ''Quinn'', userEmail = ''quinn@example.org'',
             passwordHash = ''$2a$10$secret3'', userRole = Professor, userCreatedAt = 3000 \<rparr>"
definition sam :: user where
  "sam = \<lparr> userId = idSam, userName = ''Sam'', userEmail = ''sam@example.org'',
           passwordHash = ''$2a$10$secret4'', userRole = Student, userCreatedAt = 4000 \<rparr>"
definition zoe :: user where
  "zoe = \<lparr> userId = idZoe, userName = ''Zoe'', userEmail = ''zoe@example.org'',
           passwordHash = ''$2a$10$secret5'', userRole = Admin, userCreatedAt = 5000 \<rparr>"

definition sub1 :: submission where
  "sub1 = \<lparr> submissionId = idS1, studentId = idSam, content = ''My answer'', fileUrl = None,
            submittedAt = 50000000 \<rparr>"

definition a1 :: assignment where
  "a1 = \<lparr> assignmentId = idA1, title = ''Essay one'', description = ''Write the first essay'',
          dueDate = 100000000, createdBy = idPaul, submissions = [sub1],
          createdAt = 10000, updatedAt = 50000000 \<rparr>"
definition a2 :: assignment where
  "a2 = \<lparr> assignmentId = idA2, title = ''Essay two'', description = ''Write the second essay'',
          dueDate = 300000000, createdBy = idQuinn, submissions = [],
          createdAt = 20000, updatedAt = 20000 \<rparr>"

definition sampleDb :: db where
  "sampleDb = \<lparr> users = [ada, paul, quinn, sam, zoe], assignments = [a1, a2] \<rparr>"

definition regAda :: registerRequest where
  "regAda = \<lparr> regName = ''Ada'', regEmail = ''Ada@Example.org'', regPassword = ''secret1'',
              regRole = Some ''student'' \<rparr>"
definition regBob :: registerRequest where
  "regBob = \<lparr> regName = ''Bob'', regEmail = ''bob@example.org'', regPassword = ''hunter22'',
              regRole = Some ''admin'' \<rparr>"

definition loginUnknown :: loginRequest where
  "loginUnknown = \<lparr> loginEmail = ''nobody@example.org'', loginPassword = ''secret1'' \<rparr>"
definition loginWrong :: loginRequest where
  "loginWrong = \<lparr> loginEmail = ''ada@example.org'', loginPassword = ''wrongpass'' \<rparr>"

definition updateTitleOnly :: updateAssignmentRequest where
  "updateTitleOnly = \<lparr> uaTitle = Some ''Essay one, revised'', uaDescription = None, uaDueDate = None \<rparr>"

definition submitBody :: submitAssignmentRequest where
  "submitBody = \<lparr> saContent = ''A second answer'', saFileUrl = None \<rparr>"

definition defaultQuery :: assignmentQuery where
  "defaultQuery = \<lparr> qPage = None, qLimit = None, qStatus = None, qSortBy = None, qSortOrder = None \<rparr>"
definition onePerPage :: assignmentQuery where
  "onePerPage = defaultQuery\<lparr> qLimit := Some ''1'' \<rparr>"

definition secondPage :: assignmentQuery where
  "secondPage = \<lparr> qPage = Some ''2'', qLimit = Some ''1'', qStatus = None, qSortBy = None, qSortOrder = None \<rparr>"

definition pdfFile :: uploadedFile where
  "pdfFile = \<lparr> buffer = ''%PDF-1.4'', originalName = ''essay.pdf'', mimeType = ''application/pdf'',
               fileSize = 8 \<rparr>"
definition exeFile :: uploadedFile where
  "exeFile = \<lparr> buffer = ''MZ'', originalName = ''tool.exe'', mimeType = ''application/x-msdownload'',
               fileSize = 2 \<rparr>"
definition pngFile :: uploadedFile where
  "pngFile = \<lparr> buffer = ''PNG'', originalName = ''photo.png'', mimeType = ''image/png'',
               fileSize = 5 * 1024 * 1024 \<rparr>"
definition bigPngFile :: uploadedFile where
  "bigPngFile = pngFile\<lparr> fileSize := 5 * 1024 * 1024 + 1 \<rparr>"

definition createOld :: createAssignmentRequest where
  "createOld = \<lparr> caTitle = ''Essay three'', caDescription = ''Write the third essay'',
                 caDueDate = ''113600000'' \<rparr>"
definition createRecent :: createAssignmentRequest where
  "createRecent = createOld\<lparr> caDueDate := ''113600001'' \<rparr>"

definition updateOld :: updateAssignmentRequest where
  "updateOld = \<lparr> uaTitle = None, uaDescription = None, uaDueDate = Some ''113600000'' \<rparr>"
definition updateRecent :: updateAssignmentRequest where
  "updateRecent = \<lparr> uaTitle = Some ''Essay two, revised'', uaDescription = None,
                    uaDueDate = Some ''113600001'' \<rparr>"

text \<open>The ids a listing answers with (the error answer unchanged).\<close>

definition listedIds :: "failure + (assignmentListResponse list \<times> pagination) \<Rightarrow> failure + oid list" where
  "listedIds res = (case res of Inl f \<Rightarrow> Inl f | Inr (items, pg) \<Rightarrow> Inr (map alId items))"


section \<open>Verification\<close>

subsection \<open>Lists and lookups\<close>

lemma those_map_all2:
  "those (map f xs) = Some ys \<Longrightarrow> list_all2 (\<lambda>x y. f x = Some y) xs ys"
  by (induction xs arbitrary: ys) (auto split: option.splits)

lemma all2_set_right:
  "list_all2 R xs ys \<Longrightarrow> y \<in> set ys \<Longrightarrow> \<exists>x\<in>set xs. R x y"
  by (induction rule: list_all2_induct) auto

lemma all2_map_eq:
  "list_all2 (\<lambda>x y. f x = g y) xs ys \<Longrightarrow> map f xs = map g ys"
  by (induction rule: list_all2_induct) auto

lemma find_SomeD: "find P xs = Some x \<Longrightarrow> P x \<and> x \<in> set xs"
  by (induction xs) (auto split: if_splits)

lemma find_filter_other:
  "i \<noteq> j \<Longrightarrow> find (\<lambda>a. f a = i) (filter (\<lambda>x. f x \<noteq> j) xs) = find (\<lambda>a. f a = i) xs"
  by (induction xs) auto

lemma find_filter_same: "find (\<lambda>a. f a = i) (filter (\<lambda>x. f x \<noteq> i) xs) = None"
  by (induction xs) auto

lemma find_replace_same:
  "find (\<lambda>x. f x = i) xs = Some u \<Longrightarrow> f u' = i \<Longrightarrow>
   find (\<lambda>x. f x = i) (map (\<lambda>x. if f x = f u' then u' else x) xs) = Some u'"
  by (induction xs) (auto split: if_splits)

lemma toListResponse_fields:
  "toListResponse now d a = Some r \<Longrightarrow>
     alId r = assignmentId a \<and> alDueDate r = dueDate a \<and> alIsOverdue r = isOverdue now a \<and>
     ciId (alCreatedBy r) = createdBy a \<and> alSubmissionCount r = length (submissions a)"
  by (auto simp: toListResponse_def findUserById_def getSubmissionCount_def
           split: option.splits dest: find_SomeD)

text \<open>What a successful listing was computed from.\<close>

lemma getAssignments_items:
  assumes "getAssignments L now (Some cu) q d = Inr (items, pg)"
  shows "\<exists>page limit st sb so.
           assignmentQuerySchema q = Inr (Some page, Some limit, st, sb, so) \<and> 0 \<le> (page - 1) * limit \<and>
           those (map (toListResponse now d)
                   (limitTo limit (drop (nat ((page - 1) * limit))
                      (sortAssignments sb so (matching now cu st d))))) = Some items \<and>
           pgTotal pg = length (matching now cu st d) \<and> pgPage pg = page \<and> pgLimit pg = limit"
  using assms
  by (auto simp: getAssignments_def Let_def split: sum.splits option.splits if_splits prod.splits)

text \<open>\<open>trim\<close> strips the no-break space like the other white space, and nothing inside.\<close>

lemma trim_examples:
  "trim ([CHR 0xA0] @ ''  ab c'' @ [CHR 0x09, CHR 0xA0, CHR 0x0A]) = ''ab c''"
  "trim (''ab'' @ [CHR 0xA0]) = ''ab''"
  "\<not> titleValidator (trim (''ab'' @ [CHR 0xA0]))"
  by code_simp+

subsection \<open>Registration\<close>

lemma registerUser_success:
  "registerUser L now newId body d = (Inr resp, d') \<Longrightarrow>
     auRole (arUser resp) = (if length (users d) = 0 then Admin else Student) \<and>
     (\<exists>u. users d' = users d @ [u] \<and> toAuthUser u = arUser resp)"
  by (auto simp: registerUser_def createUser_def Let_def toAuthUser_def split: if_splits option.splits)

lemma registerUser_users:
  "users (snd (registerUser L now newId body d)) = users d \<or>
   (\<exists>u. users (snd (registerUser L now newId body d)) = users d @ [u] \<and>
        userRole u = (if users d = [] then Admin else Student))"
  by (auto simp: registerUser_def createUser_def Let_def split: if_splits option.splits)

text \<open>
  The users a sequence of registrations adds: the one added at position 0 of the
  collection is an admin, every other one a student.
\<close>

lemma registerAll_roles:
  "\<exists>new. users (registerAll L reqs d) = users d @ new \<and>
     (\<forall>j<length new. userRole (new ! j) = (if length (users d) + j = 0 then Admin else Student))"
proof (induction reqs arbitrary: d)
  case Nil
  show ?case by simp
next
  case (Cons x reqs)
  obtain now newId body where x: "x = (now, newId, body)" by (cases x) auto
  let ?d1 = "snd (registerUser L now newId body d)"
  from Cons.IH[of ?d1] obtain new1 where k: "users (registerAll L reqs ?d1) = users ?d1 @ new1"
     "\<forall>j<length new1. userRole (new1 ! j) = (if length (users ?d1) + j = 0 then Admin else Student)"
    by blast
  from registerUser_users[of L now newId body d] show ?case
  proof
    assume "users ?d1 = users d"
    with k x show ?thesis by auto
  next
    assume "\<exists>u. users ?d1 = users d @ [u] \<and> userRole u = (if users d = [] then Admin else Student)"
    then obtain u where u: "users ?d1 = users d @ [u]"
      "userRole u = (if users d = [] then Admin else Student)" by blast
    have a: "users (registerAll L (x # reqs) d) = users d @ (u # new1)" using k(1) u(1) x by simp
    have b: "userRole ((u # new1) ! j) = (if length (users d) + j = 0 then Admin else Student)"
      if "j < length (u # new1)" for j
    proof (cases j)
      case 0
      then show ?thesis using u(2) by simp
    next
      case (Suc j')
      then have "j' < length new1" using that by simp
      with k(2) u(1) Suc show ?thesis by simp
    qed
    from a b show ?thesis by blast
  qed
qed

text \<open>
  Claim C1. Whenever \<open>registerUser\<close> creates a user, the role it stores and answers is
  \<open>admin\<close> if the collection held no user and \<open>student\<close> otherwise, whatever the \<open>role\<close>
  field of the request said; so in every sequence of registrations on an empty
  collection the first user created is the admin and all later ones are students.
\<close>

theorem register_first_user_is_admin:
  "(registerUser L now newId body d = (Inr resp, d') \<longrightarrow>
      auRole (arUser resp) = (if length (users d) = 0 then Admin else Student) \<and>
      (\<exists>u. users d' = users d @ [u] \<and> toAuthUser u = arUser resp)) \<and>
   (users d0 = [] \<and> i < length (users (registerAll L reqs d0)) \<longrightarrow>
      userRole (users (registerAll L reqs d0) ! i) = (if i = 0 then Admin else Student))"
proof -
  have step: "registerUser L now newId body d = (Inr resp, d') \<longrightarrow>
      auRole (arUser resp) = (if length (users d) = 0 then Admin else Student) \<and>
      (\<exists>u. users d' = users d @ [u] \<and> toAuthUser u = arUser resp)"
    using registerUser_success[of L now newId body d resp d'] by blast
  have run: "users d0 = [] \<and> i < length (users (registerAll L reqs d0)) \<longrightarrow>
      userRole (users (registerAll L reqs d0) ! i) = (if i = 0 then Admin else Student)"
  proof
    assume h: "users d0 = [] \<and> i < length (users (registerAll L reqs d0))"
    from registerAll_roles[of L reqs d0] obtain new where
      n: "users (registerAll L reqs d0) = users d0 @ new"
         "\<forall>j<length new. userRole (new ! j) = (if length (users d0) + j = 0 then Admin else Student)"
      by blast
    from h have e: "users d0 = []" and i: "i < length (users (registerAll L reqs d0))"
      by blast+
    from n(1) e have eq: "users (registerAll L reqs d0) = new" by simp
    from i eq have il: "i < length new" by simp
    from n(2)[rule_format, OF il] e eq
    show "userRole (users (registerAll L reqs d0) ! i) = (if i = 0 then Admin else Student)"
      by simp
  qed
  from step run show ?thesis by (rule conjI)
qed

theorem register_first_user_is_admin_witness:
  "registerUser sampleLib 1000 idAda regAda emptyDb =
     (Inr \<lparr> arUser = toAuthUser ada, arToken = ''jwt.'' @ idAda \<rparr>, emptyDb\<lparr>users := [ada]\<rparr>) \<and>
   regRole regAda = Some ''student'' \<and> auRole (arUser \<lparr> arUser = toAuthUser ada, arToken = ''jwt.'' @ idAda \<rparr>) = Admin \<and>
   length (users (registerAll sampleLib [(1000, idAda, regAda), (2000, idNew, regBob)] emptyDb)) = 2 \<and>
   regRole regBob = Some ''admin'' \<and>
   userRole (users (registerAll sampleLib [(1000, idAda, regAda), (2000, idNew, regBob)] emptyDb) ! 0) = Admin \<and>
   userRole (users (registerAll sampleLib [(1000, idAda, regAda), (2000, idNew, regBob)] emptyDb) ! 1) = Student"
proof -
  let ?reqs = "[(1000, idAda, regAda), (2000, idNew, regBob)]"
  have e: "registerUser sampleLib 1000 idAda regAda emptyDb =
     (Inr \<lparr> arUser = toAuthUser ada, arToken = ''jwt.'' @ idAda \<rparr>, emptyDb\<lparr>users := [ada]\<rparr>)"
    by code_simp
  have r: "regRole regAda = Some ''student''" "regRole regBob = Some ''admin''"
    by (simp_all add: regAda_def regBob_def)
  have u: "users emptyDb = []" by (simp add: emptyDb_def)
  have l: "length (users (registerAll sampleLib ?reqs emptyDb)) = 2" by code_simp
  have c1: "auRole (arUser \<lparr> arUser = toAuthUser ada, arToken = ''jwt.'' @ idAda \<rparr>) = Admin"
    using register_first_user_is_admin[where L = sampleLib and now = 1000 and newId = idAda
        and body = regAda and d = emptyDb and d' = "emptyDb\<lparr>users := [ada]\<rparr>"
        and resp = "\<lparr> arUser = toAuthUser ada, arToken = ''jwt.'' @ idAda \<rparr>",
        THEN conjunct1, THEN mp, OF e] u
    by simp
  have c2: "userRole (users (registerAll sampleLib ?reqs emptyDb) ! 0) = Admin"
    using register_first_user_is_admin[where L = sampleLib and ?d0.0 = emptyDb and reqs = ?reqs
        and i = 0, THEN conjunct2] u l by (simp del: registerAll.simps)
  have c3: "userRole (users (registerAll sampleLib ?reqs emptyDb) ! 1) = Student"
    using register_first_user_is_admin[where L = sampleLib and ?d0.0 = emptyDb and reqs = ?reqs
        and i = 1, THEN conjunct2] u l by (simp del: registerAll.simps)
  from e r l c1 c2 c3 show ?thesis by blast
qed

subsection \<open>Login\<close>

text \<open>
  Claim C7. For login attempts that pass the login schema, an address that matches no
  registered user and a registered address with a password that does not match the
  stored hash get the same answer: status 401 with the message
  \<open>Invalid email or password\<close>. More generally the answer to any one request is the
  same on a database where its address is unknown and on one where it is registered
  with another password.
\<close>

theorem login_same_answer_for_unknown_email_and_wrong_password:
  "(loginSchema L b1 = [] \<and> loginSchema L b2 = [] \<and>
    findUserByEmail d (loginEmail b1) = None \<and>
    findUserByEmail d (loginEmail b2) = Some u \<and> \<not> bcryptCompare L (loginPassword b2) (passwordHash u)
    \<longrightarrow> loginUser L b1 d = Inl (Failure 401 ''Invalid email or password'' NoExtra) \<and>
        loginUser L b2 d = Inl (Failure 401 ''Invalid email or password'' NoExtra)) \<and>
   (findUserByEmail d1 (loginEmail b) = None \<and>
    findUserByEmail d2 (loginEmail b) = Some u2 \<and> \<not> bcryptCompare L (loginPassword b) (passwordHash u2)
    \<longrightarrow> loginUser L b d1 = loginUser L b d2)"
  by (simp add: loginUser_def Let_def)

theorem login_same_answer_witness:
  "loginSchema sampleLib loginUnknown = [] \<and> loginSchema sampleLib loginWrong = [] \<and>
   findUserByEmail sampleDb (loginEmail loginUnknown) = None \<and>
   findUserByEmail sampleDb (loginEmail loginWrong) = Some ada \<and>
   \<not> bcryptCompare sampleLib (loginPassword loginWrong) (passwordHash ada) \<and>
   findUserByEmail emptyDb (loginEmail loginWrong) = None \<and>
   loginUser sampleLib loginUnknown sampleDb = Inl (Failure 401 ''Invalid email or password'' NoExtra) \<and>
   loginUser sampleLib loginWrong sampleDb = Inl (Failure 401 ''Invalid email or password'' NoExtra) \<and>
   loginUser sampleLib loginWrong emptyDb = loginUser sampleLib loginWrong sampleDb"
proof -
  have h: "loginSchema sampleLib loginUnknown = [] \<and> loginSchema sampleLib loginWrong = [] \<and>
     findUserByEmail sampleDb (loginEmail loginUnknown) = None \<and>
     findUserByEmail sampleDb (loginEmail loginWrong) = Some ada \<and>
     \<not> bcryptCompare sampleLib (loginPassword loginWrong) (passwordHash ada)"
    by code_simp
  have g: "findUserByEmail emptyDb (loginEmail loginWrong) = None" by code_simp
  note T = login_same_answer_for_unknown_email_and_wrong_password
    [where L = sampleLib and ?b1.0 = loginUnknown and ?b2.0 = loginWrong and d = sampleDb and u = ada
       and ?d1.0 = emptyDb and ?d2.0 = sampleDb and b = loginWrong and ?u2.0 = ada]
  from T h g show ?thesis by blast
qed


subsection \<open>The overdue state\<close>

text \<open>
  Claim C8. \<open>isOverdue()\<close> is true exactly when the current time is strictly greater
  than the due date. An assignment has no overdue field: every answer that shows
  \<open>isOverdue\<close> (here the answer for one assignment and every item of a listing)
  computes it from the due date it shows and the time of the request.
\<close>

theorem isOverdue_computed_at_read_time:
  "(isOverdue now a \<longleftrightarrow> now > dueDate a) \<and>
   (toListResponse now d a = Some r \<longrightarrow> (alIsOverdue r \<longleftrightarrow> now > alDueDate r)) \<and>
   (getAssignments L now actor q d' = Inr (items, pg) \<longrightarrow>
      (\<forall>r\<in>set items. alIsOverdue r \<longleftrightarrow> now > alDueDate r))"
proof -
  have one: "isOverdue now a \<longleftrightarrow> now > dueDate a" by (simp add: isOverdue_def)
  have two: "toListResponse now d a = Some r \<longrightarrow> (alIsOverdue r \<longleftrightarrow> now > alDueDate r)"
    using toListResponse_fields[of now d a r] by (simp add: isOverdue_def)
  have three: "getAssignments L now actor q d' = Inr (items, pg) \<longrightarrow>
      (\<forall>r\<in>set items. alIsOverdue r \<longleftrightarrow> now > alDueDate r)"
  proof (intro impI ballI)
    fix r'
    assume g: "getAssignments L now actor q d' = Inr (items, pg)" and r: "r' \<in> set items"
    from g obtain cu where cu: "actor = Some cu" by (cases actor) (auto simp: getAssignments_def)
    from getAssignments_items[OF g[unfolded cu]] obtain xs where
      "those (map (toListResponse now d') xs) = Some items" by blast
    then have "list_all2 (\<lambda>x y. toListResponse now d' x = Some y) xs items" by (rule those_map_all2)
    from all2_set_right[OF this r] obtain x where "toListResponse now d' x = Some r'" by blast
    then show "alIsOverdue r' \<longleftrightarrow> now > alDueDate r'"
      using toListResponse_fields[of now d' x r'] by (simp add: isOverdue_def)
  qed
  from one two three show ?thesis by blast
qed

theorem isOverdue_computed_witness:
  "dueDate a1 = 100000000 \<and> isOverdue 100000001 a1 \<and> \<not> isOverdue 100000000 a1 \<and>
   (\<exists>items pg. getAssignments sampleLib 200000000 (Some (toAuthUser sam)) defaultQuery sampleDb = Inr (items, pg) \<and>
      map alDueDate items = [100000000, 300000000] \<and> map alIsOverdue items = [True, False] \<and>
      list_all (\<lambda>r. alIsOverdue r \<longleftrightarrow> 200000000 > alDueDate r) items)"
proof -
  have due: "dueDate a1 = 100000000" by (simp add: a1_def)
  have "case getAssignments sampleLib 200000000 (Some (toAuthUser sam)) defaultQuery sampleDb of
          Inl f \<Rightarrow> False
        | Inr (items, pg) \<Rightarrow> map alDueDate items = [100000000, 300000000] \<and> map alIsOverdue items = [True, False]"
    by code_simp
  then obtain items pg where
    g: "getAssignments sampleLib 200000000 (Some (toAuthUser sam)) defaultQuery sampleDb = Inr (items, pg)"
    and m: "map alDueDate items = [100000000, 300000000]" "map alIsOverdue items = [True, False]"
    by (auto split: sum.splits)
  have o1: "isOverdue 100000001 a1"
    using isOverdue_computed_at_read_time[where now = 100000001 and a = a1, THEN conjunct1] due by simp
  have o2: "\<not> isOverdue 100000000 a1"
    using isOverdue_computed_at_read_time[where now = 100000000 and a = a1, THEN conjunct1] due by simp
  have "\<forall>r\<in>set items. alIsOverdue r \<longleftrightarrow> 200000000 > alDueDate r"
    using isOverdue_computed_at_read_time[where now = 200000000 and L = sampleLib
        and actor = "Some (toAuthUser sam)" and q = defaultQuery and d' = sampleDb
        and items = items and pg = pg, THEN conjunct2, THEN conjunct2] g by blast
  then have la: "list_all (\<lambda>r. alIsOverdue r \<longleftrightarrow> 200000000 > alDueDate r) items"
    by (simp add: list_all_iff)
  have "\<exists>items pg. getAssignments sampleLib 200000000 (Some (toAuthUser sam)) defaultQuery sampleDb = Inr (items, pg) \<and>
      map alDueDate items = [100000000, 300000000] \<and> map alIsOverdue items = [True, False] \<and>
      list_all (\<lambda>r. alIsOverdue r \<longleftrightarrow> 200000000 > alDueDate r) items"
    by (rule exI[of _ items], rule exI[of _ pg]) (simp add: g m la)
  with due o1 o2 show ?thesis by simp
qed

subsection \<open>Role updates\<close>

text \<open>
  Claim C6. With an admin's token: a request that targets the admin's own id and asks
  for anything but \<open>admin\<close> fails and leaves the users as they were (the admin's stored
  role stays what it was); a request that targets another existing user, an admin
  included, with one of the three roles succeeds and stores that role for that user.
\<close>

theorem updateUserRole_self_demotion_guard:
  assumes "auRole cu = Admin"
  shows "(uid = auId cu \<and> parseRole requested \<noteq> Some Admin \<longrightarrow>
            (\<exists>f. updateUserRole L (Some cu) uid requested d = (Inl f, d))) \<and>
         (uid \<noteq> auId cu \<and> uid \<noteq> [] \<and> isValidObjectId L uid \<and> findUserById d uid = Some u \<and>
          parseRole requested = Some r \<longrightarrow>
            updateUserRole L (Some cu) uid requested d =
              (Inr \<lparr> ulId = uid, ulName = userName u, ulEmail = userEmail u, ulRole = r \<rparr>,
               replaceUser (u\<lparr>userRole := r\<rparr>) d) \<and>
            findUserById (replaceUser (u\<lparr>userRole := r\<rparr>) d) uid = Some (u\<lparr>userRole := r\<rparr>))"
proof -
  have self: "uid = auId cu \<and> parseRole requested \<noteq> Some Admin \<longrightarrow>
            (\<exists>f. updateUserRole L (Some cu) uid requested d = (Inl f, d))"
    using assms
    by (auto simp: updateUserRole_def findUserById_def Let_def split: option.splits dest: find_SomeD)
  have other: "uid \<noteq> auId cu \<and> uid \<noteq> [] \<and> isValidObjectId L uid \<and> findUserById d uid = Some u \<and>
          parseRole requested = Some r \<longrightarrow>
            updateUserRole L (Some cu) uid requested d =
              (Inr \<lparr> ulId = uid, ulName = userName u, ulEmail = userEmail u, ulRole = r \<rparr>,
               replaceUser (u\<lparr>userRole := r\<rparr>) d) \<and>
            findUserById (replaceUser (u\<lparr>userRole := r\<rparr>) d) uid = Some (u\<lparr>userRole := r\<rparr>)"
  proof (intro impI conjI)
    assume h: "uid \<noteq> auId cu \<and> uid \<noteq> [] \<and> isValidObjectId L uid \<and> findUserById d uid = Some u \<and>
          parseRole requested = Some r"
    then have id: "userId u = uid" by (auto simp: findUserById_def dest: find_SomeD)
    show "updateUserRole L (Some cu) uid requested d =
              (Inr \<lparr> ulId = uid, ulName = userName u, ulEmail = userEmail u, ulRole = r \<rparr>,
               replaceUser (u\<lparr>userRole := r\<rparr>) d)"
      using assms h id by (simp add: updateUserRole_def Let_def)
    show "findUserById (replaceUser (u\<lparr>userRole := r\<rparr>) d) uid = Some (u\<lparr>userRole := r\<rparr>)"
      using h id find_replace_same[of userId uid "users d" u "u\<lparr>userRole := r\<rparr>"]
      by (simp add: findUserById_def replaceUser_def)
  qed
  from self other show ?thesis by (rule conjI)
qed

theorem updateUserRole_guard_witness:
  "auRole (toAuthUser ada) = Admin \<and> parseRole ''student'' \<noteq> Some Admin \<and>
   (\<exists>f. updateUserRole sampleLib (Some (toAuthUser ada)) idAda ''student'' sampleDb = (Inl f, sampleDb)) \<and>
   findUserById sampleDb idAda = Some ada \<and> userRole ada = Admin \<and>
   idZoe \<noteq> auId (toAuthUser ada) \<and> findUserById sampleDb idZoe = Some zoe \<and> userRole zoe = Admin \<and>
   parseRole ''student'' = Some Student \<and>
   updateUserRole sampleLib (Some (toAuthUser ada)) idZoe ''student'' sampleDb =
     (Inr \<lparr> ulId = idZoe, ulName = userName zoe, ulEmail = userEmail zoe, ulRole = Student \<rparr>,
      replaceUser (zoe\<lparr>userRole := Student\<rparr>) sampleDb) \<and>
   findUserById (replaceUser (zoe\<lparr>userRole := Student\<rparr>) sampleDb) idZoe = Some (zoe\<lparr>userRole := Student\<rparr>)"
proof -
  have a: "auRole (toAuthUser ada) = Admin" by code_simp
  have h1: "idAda = auId (toAuthUser ada) \<and> parseRole ''student'' \<noteq> Some Admin" by code_simp
  have h2: "idZoe \<noteq> auId (toAuthUser ada) \<and> idZoe \<noteq> [] \<and> isValidObjectId sampleLib idZoe \<and>
            findUserById sampleDb idZoe = Some zoe \<and> parseRole ''student'' = Some Student"
    by code_simp
  have s: "findUserById sampleDb idAda = Some ada \<and> userRole ada = Admin \<and> userRole zoe = Admin"
    by code_simp
  from updateUserRole_self_demotion_guard[OF a, where uid = idAda and requested = "''student''"
      and L = sampleLib and d = sampleDb, THEN conjunct1] h1
  have c1: "\<exists>f. updateUserRole sampleLib (Some (toAuthUser ada)) idAda ''student'' sampleDb = (Inl f, sampleDb)"
    by blast
  from updateUserRole_self_demotion_guard[OF a, where uid = idZoe and requested = "''student''"
      and L = sampleLib and d = sampleDb and u = zoe and r = Student, THEN conjunct2] h2
  have c2: "updateUserRole sampleLib (Some (toAuthUser ada)) idZoe ''student'' sampleDb =
     (Inr \<lparr> ulId = idZoe, ulName = userName zoe, ulEmail = userEmail zoe, ulRole = Student \<rparr>,
      replaceUser (zoe\<lparr>userRole := Student\<rparr>) sampleDb) \<and>
     findUserById (replaceUser (zoe\<lparr>userRole := Student\<rparr>) sampleDb) idZoe = Some (zoe\<lparr>userRole := Student\<rparr>)"
    by blast
  from a h1 h2 s c1 c2 show ?thesis by blast
qed

subsection \<open>Deleting an assignment\<close>

text \<open>
  Claim C3. Deleting a stored assignment that has at least one submission fails, for
  every caller, and leaves the database as it was; deleting one without submissions, by
  an admin or by the professor who created it, succeeds and removes that assignment
  (and nothing else).
\<close>

theorem deleteAssignment_submission_guard:
  assumes "findAssignmentById d aid = Some a"
  shows "(submissions a \<noteq> [] \<longrightarrow> (\<exists>f. deleteAssignment L actor aid d = (Inl f, d))) \<and>
         (submissions a = [] \<and> isValidObjectId L aid \<and>
          (auRole cu = Admin \<or> (auRole cu = Professor \<and> createdBy a = auId cu)) \<longrightarrow>
            deleteAssignment L (Some cu) aid d = (Inr ''Assignment deleted successfully'', findByIdAndDelete aid d) \<and>
            findAssignmentById (findByIdAndDelete aid d) aid = None \<and>
            (\<forall>i. i \<noteq> aid \<longrightarrow> findAssignmentById (findByIdAndDelete aid d) i = findAssignmentById d i) \<and>
            users (findByIdAndDelete aid d) = users d)"
proof -
  have keep: "submissions a \<noteq> [] \<longrightarrow> (\<exists>f. deleteAssignment L actor aid d = (Inl f, d))"
    using assms by (auto simp: deleteAssignment_def split: option.splits)
  have gone: "findAssignmentById (findByIdAndDelete aid d) aid = None"
    by (simp add: findAssignmentById_def findByIdAndDelete_def find_filter_same)
  have rest: "\<forall>i. i \<noteq> aid \<longrightarrow> findAssignmentById (findByIdAndDelete aid d) i = findAssignmentById d i"
    by (simp add: findAssignmentById_def findByIdAndDelete_def find_filter_other)
  have us: "users (findByIdAndDelete aid d) = users d" by (simp add: findByIdAndDelete_def)
  have del: "submissions a = [] \<and> isValidObjectId L aid \<and>
          (auRole cu = Admin \<or> (auRole cu = Professor \<and> createdBy a = auId cu)) \<longrightarrow>
            deleteAssignment L (Some cu) aid d = (Inr ''Assignment deleted successfully'', findByIdAndDelete aid d)"
    using assms by (auto simp: deleteAssignment_def canManage_def isOwnerOrAdmin_def)
  from keep del gone rest us show ?thesis by blast
qed

theorem deleteAssignment_guard_witness:
  "findAssignmentById sampleDb idA1 = Some a1 \<and> submissions a1 \<noteq> [] \<and>
   (\<exists>f. deleteAssignment sampleLib (Some (toAuthUser ada)) idA1 sampleDb = (Inl f, sampleDb)) \<and>
   findAssignmentById sampleDb idA2 = Some a2 \<and> submissions a2 = [] \<and>
   auRole (toAuthUser quinn) = Professor \<and> createdBy a2 = auId (toAuthUser quinn) \<and>
   deleteAssignment sampleLib (Some (toAuthUser quinn)) idA2 sampleDb =
     (Inr ''Assignment deleted successfully'', findByIdAndDelete idA2 sampleDb) \<and>
   findAssignmentById (findByIdAndDelete idA2 sampleDb) idA2 = None \<and>
   findAssignmentById (findByIdAndDelete idA2 sampleDb) idA1 = Some a1"
proof -
  have f1: "findAssignmentById sampleDb idA1 = Some a1" by code_simp
  have f2: "findAssignmentById sampleDb idA2 = Some a2" by code_simp
  have h1: "submissions a1 \<noteq> []" by code_simp
  have h2: "submissions a2 = [] \<and> isValidObjectId sampleLib idA2 \<and>
            (auRole (toAuthUser quinn) = Admin \<or>
             (auRole (toAuthUser quinn) = Professor \<and> createdBy a2 = auId (toAuthUser quinn)))"
    by code_simp
  have h3: "auRole (toAuthUser quinn) = Professor \<and> createdBy a2 = auId (toAuthUser quinn) \<and> idA1 \<noteq> idA2"
    by code_simp
  from deleteAssignment_submission_guard[OF f1, where L = sampleLib and actor = "Some (toAuthUser ada)",
      THEN conjunct1] h1
  have c1: "\<exists>f. deleteAssignment sampleLib (Some (toAuthUser ada)) idA1 sampleDb = (Inl f, sampleDb)"
    by blast
  from deleteAssignment_submission_guard[OF f2, where L = sampleLib and cu = "toAuthUser quinn",
      THEN conjunct2] h2
  have c2: "deleteAssignment sampleLib (Some (toAuthUser quinn)) idA2 sampleDb =
      (Inr ''Assignment deleted successfully'', findByIdAndDelete idA2 sampleDb) \<and>
     findAssignmentById (findByIdAndDelete idA2 sampleDb) idA2 = None \<and>
     (\<forall>i. i \<noteq> idA2 \<longrightarrow> findAssignmentById (findByIdAndDelete idA2 sampleDb) i = findAssignmentById sampleDb i)"
    by blast
  with h3 f1 have c3: "findAssignmentById (findByIdAndDelete idA2 sampleDb) idA1 = Some a1" by simp
  from f1 f2 h1 h2 h3 c1 c2 c3 show ?thesis by blast
qed


subsection \<open>Submitting\<close>

lemma submissionsHook_messages:
  "submissionsHook d subs new = Some msg \<Longrightarrow>
     msg = ''Student not found'' \<or> msg = ''Only students can submit assignments'' \<or>
     msg = ''Student has already submitted this assignment''"
  by (induction new) (auto split: option.splits if_splits)

lemma submit_failure_keeps_db:
  "submitAssignment L now newId actor aid body d = (Inl f, d') \<Longrightarrow> d' = d"
  by (auto simp: submitAssignment_def Let_def split: option.splits if_splits sum.splits prod.splits)

lemma submit_overdue_fails:
  "auRole cu = Student \<Longrightarrow> findAssignmentById d aid = Some a \<Longrightarrow> isOverdue now a \<Longrightarrow>
   \<exists>f. submitAssignment L now newId (Some cu) aid body d = (Inl f, d)"
  by (auto simp: submitAssignment_def Let_def split: option.splits if_splits sum.splits prod.splits)

lemma submit_duplicate_fails:
  "auRole cu = Student \<Longrightarrow> findAssignmentById d aid = Some a \<Longrightarrow> hasStudentSubmitted a (auId cu) \<Longrightarrow>
   \<exists>f. submitAssignment L now newId (Some cu) aid body d = (Inl f, d)"
  by (auto simp: submitAssignment_def Let_def split: option.splits if_splits sum.splits prod.splits)

lemma submit_overdue_error:
  "auRole cu = Student \<Longrightarrow> isValidObjectId L aid \<Longrightarrow> submitAssignmentSchema L body = Inr p \<Longrightarrow>
   findAssignmentById d aid = Some a \<Longrightarrow> isOverdue now a \<Longrightarrow>
   submitAssignment L now newId (Some cu) aid body d =
     (Inl (Failure 400 ''Assignment submission deadline has passed'' (DueDate (dueDate a))), d)"
  by (cases p) (simp add: submitAssignment_def)

lemma submit_duplicate_error:
  "auRole cu = Student \<Longrightarrow> isValidObjectId L aid \<Longrightarrow> submitAssignmentSchema L body = Inr p \<Longrightarrow>
   findAssignmentById d aid = Some a \<Longrightarrow> \<not> isOverdue now a \<Longrightarrow> hasStudentSubmitted a (auId cu) \<Longrightarrow>
   submitAssignment L now newId (Some cu) aid body d =
     (Inl (Failure 400 ''You have already submitted this assignment'' NoExtra), d)"
  by (cases p) (simp add: submitAssignment_def)

lemma submit_duplicate_error_only_if:
  assumes "submitAssignment L now newId actor aid body d =
     (Inl (Failure s ''You have already submitted this assignment'' x), d')"
  shows "\<exists>a u. actor = Some u \<and> findAssignmentById d aid = Some a \<and> \<not> isOverdue now a \<and>
               hasStudentSubmitted a (auId u)"
  using assms
  by (auto simp: submitAssignment_def Let_def split: option.splits if_splits sum.splits prod.splits
           dest!: submissionsHook_messages)

text \<open>
  Claim C2, as stated, fails: for an assignment whose due date has passed, a student
  who has already submitted gets the deadline error, not the duplicate error (the
  overdue check comes first).
\<close>

theorem submit_duplicate_error_counterexample:
  "auRole (toAuthUser sam) = Student \<and> findAssignmentById sampleDb idA1 = Some a1 \<and>
   hasStudentSubmitted a1 (auId (toAuthUser sam)) \<and>
   submitAssignmentSchema sampleLib submitBody = Inr (''A second answer'', None) \<and>
   submitAssignment sampleLib 200000000 idNew (Some (toAuthUser sam)) idA1 submitBody sampleDb =
     (Inl (Failure 400 ''Assignment submission deadline has passed'' (DueDate 100000000)), sampleDb) \<and>
   submitAssignment sampleLib 200000000 idNew (Some (toAuthUser sam)) idA1 submitBody sampleDb \<noteq>
     (Inl (Failure 400 ''You have already submitted this assignment'' NoExtra), sampleDb)"
  by code_simp

text \<open>
  Claim C2, amended. For a stored assignment and a caller with the student role: a
  submit call fails whenever that student already has a submission on the assignment,
  and fails whenever the time of the call is after the due date, whatever the content;
  with content that passes the schema the error is the deadline error when the
  assignment is overdue (also for a student who has already submitted) and the
  duplicate error when it is not overdue and the student has already submitted. A
  failing call leaves the database, and so the submission list, as it was.
\<close>

theorem submit_fails_when_duplicate_or_overdue:
  assumes "auRole cu = Student" and "findAssignmentById d aid = Some a"
  shows "(hasStudentSubmitted a (auId cu) \<longrightarrow>
            (\<exists>f. submitAssignment L now newId (Some cu) aid body d = (Inl f, d))) \<and>
         (isOverdue now a \<longrightarrow>
            (\<exists>f. submitAssignment L now newId (Some cu) aid body d = (Inl f, d))) \<and>
         (isValidObjectId L aid \<and> submitAssignmentSchema L body = Inr p \<and> isOverdue now a \<longrightarrow>
            submitAssignment L now newId (Some cu) aid body d =
              (Inl (Failure 400 ''Assignment submission deadline has passed'' (DueDate (dueDate a))), d)) \<and>
         (isValidObjectId L aid \<and> submitAssignmentSchema L body = Inr p \<and> \<not> isOverdue now a \<and>
          hasStudentSubmitted a (auId cu) \<longrightarrow>
            submitAssignment L now newId (Some cu) aid body d =
              (Inl (Failure 400 ''You have already submitted this assignment'' NoExtra), d)) \<and>
         (\<forall>f d'. submitAssignment L now newId (Some cu) aid body d = (Inl f, d') \<longrightarrow> d' = d)"
  using assms submit_duplicate_fails[of cu d aid a L now newId body]
    submit_overdue_fails[of cu d aid a now L newId body]
    submit_overdue_error[of cu L aid body p d a now newId]
    submit_duplicate_error[of cu L aid body p d a now newId]
    submit_failure_keeps_db[of L now newId "Some cu" aid body d]
  by blast

theorem submit_fails_witness:
  "auRole (toAuthUser sam) = Student \<and> findAssignmentById sampleDb idA1 = Some a1 \<and>
   hasStudentSubmitted a1 (auId (toAuthUser sam)) \<and> isOverdue 200000000 a1 \<and> \<not> isOverdue 50000000 a1 \<and>
   submitAssignmentSchema sampleLib submitBody = Inr (''A second answer'', None) \<and>
   (\<exists>f. submitAssignment sampleLib 200000000 idNew (Some (toAuthUser sam)) idA1
          (submitBody\<lparr>saContent := []\<rparr>) sampleDb = (Inl f, sampleDb)) \<and>
   submitAssignment sampleLib 200000000 idNew (Some (toAuthUser sam)) idA1 submitBody sampleDb =
     (Inl (Failure 400 ''Assignment submission deadline has passed'' (DueDate (dueDate a1))), sampleDb) \<and>
   submitAssignment sampleLib 50000000 idNew (Some (toAuthUser sam)) idA1 submitBody sampleDb =
     (Inl (Failure 400 ''You have already submitted this assignment'' NoExtra), sampleDb)"
proof -
  have s: "auRole (toAuthUser sam) = Student" by code_simp
  have f: "findAssignmentById sampleDb idA1 = Some a1" by code_simp
  have h: "hasStudentSubmitted a1 (auId (toAuthUser sam)) \<and> isOverdue 200000000 a1 \<and>
           \<not> isOverdue 50000000 a1 \<and> isValidObjectId sampleLib idA1 \<and>
           submitAssignmentSchema sampleLib submitBody = Inr (''A second answer'', None)"
    by code_simp
  from submit_fails_when_duplicate_or_overdue[OF s f, where L = sampleLib and now = 200000000
      and newId = idNew and body = "submitBody\<lparr>saContent := []\<rparr>", THEN conjunct2, THEN conjunct1] h
  have c1: "\<exists>f. submitAssignment sampleLib 200000000 idNew (Some (toAuthUser sam)) idA1
          (submitBody\<lparr>saContent := []\<rparr>) sampleDb = (Inl f, sampleDb)"
    by blast
  from submit_fails_when_duplicate_or_overdue[OF s f, where L = sampleLib and now = 200000000
      and newId = idNew and body = submitBody and p = "(''A second answer'', None)",
      THEN conjunct2, THEN conjunct2, THEN conjunct1] h
  have c2: "submitAssignment sampleLib 200000000 idNew (Some (toAuthUser sam)) idA1 submitBody sampleDb =
     (Inl (Failure 400 ''Assignment submission deadline has passed'' (DueDate (dueDate a1))), sampleDb)"
    by blast
  from submit_fails_when_duplicate_or_overdue[OF s f, where L = sampleLib and now = 50000000
      and newId = idNew and body = submitBody and p = "(''A second answer'', None)",
      THEN conjunct2, THEN conjunct2, THEN conjunct2, THEN conjunct1] h
  have c3: "submitAssignment sampleLib 50000000 idNew (Some (toAuthUser sam)) idA1 submitBody sampleDb =
     (Inl (Failure 400 ''You have already submitted this assignment'' NoExtra), sampleDb)"
    by blast
  from s f h c1 c2 c3 show ?thesis by blast
qed

text \<open>
  Claim C10. In \<open>submitAssignment\<close> the overdue check comes before the duplicate
  check: for an overdue assignment a student who has already submitted (with a valid id
  and content that passes the schema) gets the deadline error, and whenever the answer
  is the duplicate error the assignment is not overdue.
\<close>

theorem submit_overdue_check_precedes_duplicate_check:
  "(auRole cu = Student \<and> isValidObjectId L aid \<and> submitAssignmentSchema L body = Inr p \<and>
    findAssignmentById d aid = Some a \<and> isOverdue now a \<and> hasStudentSubmitted a (auId cu) \<longrightarrow>
      submitAssignment L now newId (Some cu) aid body d =
        (Inl (Failure 400 ''Assignment submission deadline has passed'' (DueDate (dueDate a))), d)) \<and>
   (submitAssignment L now newId actor aid body d =
        (Inl (Failure s ''You have already submitted this assignment'' x), d') \<longrightarrow>
      (\<exists>a'. findAssignmentById d aid = Some a' \<and> \<not> isOverdue now a'))"
proof -
  have first: "auRole cu = Student \<and> isValidObjectId L aid \<and> submitAssignmentSchema L body = Inr p \<and>
    findAssignmentById d aid = Some a \<and> isOverdue now a \<and> hasStudentSubmitted a (auId cu) \<longrightarrow>
      submitAssignment L now newId (Some cu) aid body d =
        (Inl (Failure 400 ''Assignment submission deadline has passed'' (DueDate (dueDate a))), d)"
    using submit_overdue_error[of cu L aid body p d a now newId] by blast
  have second: "submitAssignment L now newId actor aid body d =
        (Inl (Failure s ''You have already submitted this assignment'' x), d') \<longrightarrow>
      (\<exists>a'. findAssignmentById d aid = Some a' \<and> \<not> isOverdue now a')"
    using submit_duplicate_error_only_if[of L now newId actor aid body d s x d'] by blast
  from first second show ?thesis by (rule conjI)
qed

theorem submit_check_order_witness:
  "auRole (toAuthUser sam) = Student \<and> isValidObjectId sampleLib idA1 \<and>
   submitAssignmentSchema sampleLib submitBody = Inr (''A second answer'', None) \<and>
   findAssignmentById sampleDb idA1 = Some a1 \<and> isOverdue 100000001 a1 \<and>
   hasStudentSubmitted a1 (auId (toAuthUser sam)) \<and>
   submitAssignment sampleLib 100000001 idNew (Some (toAuthUser sam)) idA1 submitBody sampleDb =
     (Inl (Failure 400 ''Assignment submission deadline has passed'' (DueDate (dueDate a1))), sampleDb) \<and>
   submitAssignment sampleLib 100000000 idNew (Some (toAuthUser sam)) idA1 submitBody sampleDb =
     (Inl (Failure 400 ''You have already submitted this assignment'' NoExtra), sampleDb) \<and>
   (\<exists>a'. findAssignmentById sampleDb idA1 = Some a' \<and> \<not> isOverdue 100000000 a')"
proof -
  have h: "auRole (toAuthUser sam) = Student \<and> isValidObjectId sampleLib idA1 \<and>
     submitAssignmentSchema sampleLib submitBody = Inr (''A second answer'', None) \<and>
     findAssignmentById sampleDb idA1 = Some a1 \<and> isOverdue 100000001 a1 \<and>
     hasStudentSubmitted a1 (auId (toAuthUser sam))"
    by code_simp
  have e: "submitAssignment sampleLib 100000000 idNew (Some (toAuthUser sam)) idA1 submitBody sampleDb =
     (Inl (Failure 400 ''You have already submitted this assignment'' NoExtra), sampleDb)"
    by code_simp
  from submit_overdue_check_precedes_duplicate_check[where L = sampleLib and cu = "toAuthUser sam"
      and aid = idA1 and body = submitBody and p = "(''A second answer'', None)" and d = sampleDb
      and a = a1 and now = 100000001 and newId = idNew, THEN conjunct1] h
  have c1: "submitAssignment sampleLib 100000001 idNew (Some (toAuthUser sam)) idA1 submitBody sampleDb =
     (Inl (Failure 400 ''Assignment submission deadline has passed'' (DueDate (dueDate a1))), sampleDb)"
    by blast
  from submit_overdue_check_precedes_duplicate_check[where L = sampleLib and actor = "Some (toAuthUser sam)"
      and aid = idA1 and body = submitBody and d = sampleDb and now = 100000000 and newId = idNew
      and s = 400 and x = NoExtra and d' = sampleDb, THEN conjunct2] e
  have c2: "\<exists>a'. findAssignmentById sampleDb idA1 = Some a' \<and> \<not> isOverdue 100000000 a'"
    by blast
  from h e c1 c2 show ?thesis by blast
qed


subsection \<open>The due date of a created or updated assignment\<close>

lemma dueDateIssues_iff:
  "parseDatetime L s = Some due \<Longrightarrow> (dueDateIssues L now s = [] \<longleftrightarrow> due > now - dayMs)"
  by (simp add: dueDateIssues_def)

lemma create_rejects_old_date:
  assumes "canManage (Some cu)" and "parseDatetime L (caDueDate body) = Some due" and "\<not> due > now - dayMs"
  shows "\<exists>issues. createAssignment L now newId (Some cu) body d =
           (Inl (Failure 400 ''Validation failed'' (Details issues)), d) \<and>
           ''Due date must be in the future'' \<in> set issues"
  using assms by (simp add: createAssignment_def createAssignmentSchema_def dueDateIssues_def Let_def)

lemma create_accepts_recent_date:
  assumes "canManage (Some cu)" and "parseDatetime L (caDueDate body) = Some due" and "due > now - dayMs"
    and "titleIssues (caTitle body) = []" and "descriptionIssues (caDescription body) = []"
    and "titleValidator (trim (caTitle body))" and "descriptionValidator (trim (caDescription body))"
    and "isValidObjectId L (auId cu)" and "findUserById d (auId cu) = Some c"
    and "userRole c = Professor \<or> userRole c = Admin"
  shows "\<exists>resp. createAssignment L now newId (Some cu) body d =
           (Inr resp,
            d\<lparr>assignments := assignments d @
                 [\<lparr> assignmentId = newId, title = trim (caTitle body), description = trim (caDescription body),
                    dueDate = due, createdBy = auId cu, submissions = [], createdAt = now, updatedAt = now \<rparr>]\<rparr>) \<and>
           alDueDate resp = due"
  using assms
  by (auto simp: createAssignment_def createAssignmentSchema_def dueDateIssues_def Let_def
        validateAssignment_def dueDateValidator_def creatorHook_def toListResponse_def findUserById_def)

lemma update_rejects_old_date:
  assumes "canManage (Some cu)" and "isValidObjectId L aid" and "uaDueDate body = Some s"
    and "parseDatetime L s = Some due" and "\<not> due > now - dayMs"
  shows "\<exists>issues. updateAssignment L now (Some cu) aid body d =
           (Inl (Failure 400 ''Validation failed'' (Details issues)), d) \<and>
           ''Due date must be in the future'' \<in> set issues"
  using assms by (simp add: updateAssignment_def updateAssignmentSchema_def dueDateIssues_def Let_def)

lemma saveUpdated_fields:
  "saveUpdated now old a = Some saved \<Longrightarrow>
     dueDate saved = dueDate a \<and> title saved = title a \<and> description saved = description a \<and>
     assignmentId saved = assignmentId a \<and> createdBy saved = createdBy a"
  by (auto simp: saveUpdated_def split: if_splits)

lemma saveUpdated_ok:
  "validateAssignment now a \<Longrightarrow> \<exists>saved. saveUpdated now old a = Some saved"
  by (simp add: saveUpdated_def)

lemma saveUpdated_old_date:
  "\<not> dueDate a > now - dayMs \<Longrightarrow> saveUpdated now old a = None"
  by (simp add: saveUpdated_def validateAssignment_def dueDateValidator_def)

text \<open>The document that \<open>updateAssignment\<close> saves: the fields present in the parsed body replace the stored ones.\<close>

lemma updateAssignment_saves:
  assumes "canManage (Some cu)" and "isValidObjectId L aid"
    and "updateAssignmentSchema L now body = Inr (t, ds, due)"
    and "findAssignmentById d aid = Some a" and "isOwnerOrAdmin cu a"
  shows "updateAssignment L now (Some cu) aid body d =
    (case saveUpdated now a
            (a\<lparr>title := (case t of None \<Rightarrow> title a | Some v \<Rightarrow> v),
               description := (case ds of None \<Rightarrow> description a | Some v \<Rightarrow> v),
               dueDate := (case due of None \<Rightarrow> dueDate a | Some v \<Rightarrow> v)\<rparr>) of
       None \<Rightarrow> (Inl (Failure 500 ''Failed to update assignment'' NoExtra), d)
     | Some saved \<Rightarrow>
         (case toListResponse now (replaceAssignment saved d) saved of
            None \<Rightarrow> (Inl (Failure 500 ''Failed to update assignment'' NoExtra), replaceAssignment saved d)
          | Some response \<Rightarrow> (Inr response, replaceAssignment saved d)))"
  using assms
  by (cases t; cases ds; cases due) (simp_all add: updateAssignment_def Let_def split: option.splits)

lemma update_accepts_recent_date:
  assumes "canManage (Some cu)" and "isValidObjectId L aid" and "uaDueDate body = Some s"
    and "parseDatetime L s = Some due" and "due > now - dayMs"
    and "case uaTitle body of None \<Rightarrow> titleValidator (title a)
         | Some t \<Rightarrow> titleIssues t = [] \<and> titleValidator (trim t)"
    and "case uaDescription body of None \<Rightarrow> descriptionValidator (description a)
         | Some t \<Rightarrow> descriptionIssues t = [] \<and> descriptionValidator (trim t)"
    and "list_all submissionValidator (submissions a)"
    and "findAssignmentById d aid = Some a" and "isOwnerOrAdmin cu a"
    and "findUserById d (createdBy a) = Some c"
  shows "\<exists>resp saved. updateAssignment L now (Some cu) aid body d = (Inr resp, replaceAssignment saved d) \<and>
           alDueDate resp = due \<and> dueDate saved = due \<and>
           findAssignmentById (replaceAssignment saved d) aid = Some saved"
proof -
  define m where "m = a\<lparr>title := (case map_option trim (uaTitle body) of None \<Rightarrow> title a | Some v \<Rightarrow> v),
               description := (case map_option trim (uaDescription body) of None \<Rightarrow> description a | Some v \<Rightarrow> v),
               dueDate := (case Some due of None \<Rightarrow> dueDate a | Some v \<Rightarrow> v)\<rparr>"
  have sch: "updateAssignmentSchema L now body =
      Inr (map_option trim (uaTitle body), map_option trim (uaDescription body), Some due)"
    using assms(3-7)
    by (auto simp: updateAssignmentSchema_def dueDateIssues_def Let_def split: option.splits)
  have aid: "assignmentId a = aid"
    using assms(9) by (auto simp: findAssignmentById_def dest: find_SomeD)
  have t: "titleValidator (title m)"
    using assms(6) by (cases "uaTitle body") (auto simp: m_def)
  have ds: "descriptionValidator (description m)"
    using assms(7) by (cases "uaDescription body") (auto simp: m_def)
  have du: "dueDateValidator now (dueDate m)"
    using assms(5) by (simp add: m_def dueDateValidator_def)
  have ids: "assignmentId m = aid \<and> createdBy m = createdBy a \<and> dueDate m = due \<and>
             submissions m = submissions a"
    using aid by (simp add: m_def)
  have "validateAssignment now m"
    using t ds du ids assms(8) by (simp add: validateAssignment_def)
  from saveUpdated_ok[OF this] obtain saved where sv: "saveUpdated now a m = Some saved"
    by blast
  from saveUpdated_fields[OF sv] ids
  have f: "dueDate saved = due" "assignmentId saved = aid" "createdBy saved = createdBy a"
    by auto
  have fnd: "findAssignmentById (replaceAssignment saved d) aid = Some saved"
    using find_replace_same[of assignmentId aid "assignments d" a saved] assms(9) f(2)
    by (simp add: findAssignmentById_def replaceAssignment_def)
  obtain resp where r: "toListResponse now (replaceAssignment saved d) saved = Some resp"
    using assms(11) f(3) by (auto simp: toListResponse_def findUserById_def replaceAssignment_def)
  have "alDueDate resp = due" using toListResponse_fields[OF r] f(1) by simp
  moreover have "updateAssignment L now (Some cu) aid body d = (Inr resp, replaceAssignment saved d)"
    unfolding updateAssignment_saves[OF assms(1,2) sch assms(9,10)] m_def[symmetric]
    using sv r by simp
  ultimately show ?thesis using f(1) fnd by blast
qed

lemma update_checks_stored_date:
  assumes "canManage (Some cu)" and "isValidObjectId L aid"
    and "updateAssignmentSchema L now body = Inr (t, ds, None)"
    and "findAssignmentById d aid = Some a" and "isOwnerOrAdmin cu a"
    and "\<not> dueDate a > now - dayMs"
  shows "updateAssignment L now (Some cu) aid body d =
           (Inl (Failure 500 ''Failed to update assignment'' NoExtra), d)"
  unfolding updateAssignment_saves[OF assms(1-5)]
  using assms(6) by (simp add: saveUpdated_old_date)

text \<open>
  Claim C5. For a create or an update by a professor or an admin, the due date supplied
  passes the check exactly when it is strictly later than the current time minus 24
  hours. A date that is not is answered with status 400 \<open>Validation failed\<close> and the
  database is left as it was; a date that is, on a request whose other fields and whose
  stored document pass their validators, is the due date of the assignment created or
  updated. The save of an update checks the due date of the document again: an update
  that supplies no due date for an assignment whose stored due date is not later than
  the current time minus 24 hours fails, with status 500, and changes nothing.
\<close>

theorem dueDate_not_more_than_a_day_old:
  assumes "canManage (Some cu)"
  shows "(parseDatetime L s = Some due \<longrightarrow> (dueDateIssues L now s = [] \<longleftrightarrow> due > now - dayMs)) \<and>
         (parseDatetime L (caDueDate cb) = Some due \<and> \<not> due > now - dayMs \<longrightarrow>
            (\<exists>issues. createAssignment L now newId (Some cu) cb d =
               (Inl (Failure 400 ''Validation failed'' (Details issues)), d))) \<and>
         (parseDatetime L (caDueDate cb) = Some due \<and> due > now - dayMs \<and>
          titleIssues (caTitle cb) = [] \<and> descriptionIssues (caDescription cb) = [] \<and>
          titleValidator (trim (caTitle cb)) \<and> descriptionValidator (trim (caDescription cb)) \<and>
          isValidObjectId L (auId cu) \<and> findUserById d (auId cu) = Some c \<and>
          (userRole c = Professor \<or> userRole c = Admin) \<longrightarrow>
            (\<exists>resp. createAssignment L now newId (Some cu) cb d =
               (Inr resp,
                d\<lparr>assignments := assignments d @
                  [\<lparr> assignmentId = newId, title = trim (caTitle cb), description = trim (caDescription cb),
                     dueDate = due, createdBy = auId cu, submissions = [], createdAt = now, updatedAt = now \<rparr>]\<rparr>))) \<and>
         (isValidObjectId L aid \<and> uaDueDate ub = Some s \<and> parseDatetime L s = Some due \<and>
          \<not> due > now - dayMs \<longrightarrow>
            (\<exists>issues. updateAssignment L now (Some cu) aid ub d =
               (Inl (Failure 400 ''Validation failed'' (Details issues)), d))) \<and>
         (isValidObjectId L aid \<and> uaDueDate ub = Some s \<and> parseDatetime L s = Some due \<and>
          due > now - dayMs \<and>
          (case uaTitle ub of None \<Rightarrow> titleValidator (title a)
           | Some t \<Rightarrow> titleIssues t = [] \<and> titleValidator (trim t)) \<and>
          (case uaDescription ub of None \<Rightarrow> descriptionValidator (description a)
           | Some t \<Rightarrow> descriptionIssues t = [] \<and> descriptionValidator (trim t)) \<and>
          list_all submissionValidator (submissions a) \<and>
          findAssignmentById d aid = Some a \<and> isOwnerOrAdmin cu a \<and>
          findUserById d (createdBy a) = Some c' \<longrightarrow>
            (\<exists>resp saved. updateAssignment L now (Some cu) aid ub d = (Inr resp, replaceAssignment saved d) \<and>
               dueDate saved = due \<and> findAssignmentById (replaceAssignment saved d) aid = Some saved)) \<and>
         (isValidObjectId L aid \<and> updateAssignmentSchema L now ub = Inr (nt, nd, None) \<and>
          findAssignmentById d aid = Some a \<and> isOwnerOrAdmin cu a \<and> \<not> dueDate a > now - dayMs \<longrightarrow>
            updateAssignment L now (Some cu) aid ub d =
              (Inl (Failure 500 ''Failed to update assignment'' NoExtra), d))"
proof -
  have chk: "parseDatetime L s = Some due \<longrightarrow> (dueDateIssues L now s = [] \<longleftrightarrow> due > now - dayMs)"
    using dueDateIssues_iff[of L s due now] by blast
  have c_old: "parseDatetime L (caDueDate cb) = Some due \<and> \<not> due > now - dayMs \<longrightarrow>
            (\<exists>issues. createAssignment L now newId (Some cu) cb d =
               (Inl (Failure 400 ''Validation failed'' (Details issues)), d))"
    using create_rejects_old_date[OF assms, of L cb due now newId d] by blast
  have c_new: "parseDatetime L (caDueDate cb) = Some due \<and> due > now - dayMs \<and>
          titleIssues (caTitle cb) = [] \<and> descriptionIssues (caDescription cb) = [] \<and>
          titleValidator (trim (caTitle cb)) \<and> descriptionValidator (trim (caDescription cb)) \<and>
          isValidObjectId L (auId cu) \<and> findUserById d (auId cu) = Some c \<and>
          (userRole c = Professor \<or> userRole c = Admin) \<longrightarrow>
            (\<exists>resp. createAssignment L now newId (Some cu) cb d =
               (Inr resp,
                d\<lparr>assignments := assignments d @
                  [\<lparr> assignmentId = newId, title = trim (caTitle cb), description = trim (caDescription cb),
                     dueDate = due, createdBy = auId cu, submissions = [], createdAt = now, updatedAt = now \<rparr>]\<rparr>))"
    using create_accepts_recent_date[OF assms, of L cb due now d c newId] by blast
  have u_old: "isValidObjectId L aid \<and> uaDueDate ub = Some s \<and> parseDatetime L s = Some due \<and>
          \<not> due > now - dayMs \<longrightarrow>
            (\<exists>issues. updateAssignment L now (Some cu) aid ub d =
               (Inl (Failure 400 ''Validation failed'' (Details issues)), d))"
    using update_rejects_old_date[OF assms, of L aid ub s due now d] by blast
  have u_new: "isValidObjectId L aid \<and> uaDueDate ub = Some s \<and> parseDatetime L s = Some due \<and>
          due > now - dayMs \<and>
          (case uaTitle ub of None \<Rightarrow> titleValidator (title a)
           | Some t \<Rightarrow> titleIssues t = [] \<and> titleValidator (trim t)) \<and>
          (case uaDescription ub of None \<Rightarrow> descriptionValidator (description a)
           | Some t \<Rightarrow> descriptionIssues t = [] \<and> descriptionValidator (trim t)) \<and>
          list_all submissionValidator (submissions a) \<and>
          findAssignmentById d aid = Some a \<and> isOwnerOrAdmin cu a \<and>
          findUserById d (createdBy a) = Some c' \<longrightarrow>
            (\<exists>resp saved. updateAssignment L now (Some cu) aid ub d = (Inr resp, replaceAssignment saved d) \<and>
               dueDate saved = due \<and> findAssignmentById (replaceAssignment saved d) aid = Some saved)"
    using update_accepts_recent_date[OF assms, of L aid ub s due now a d c'] by blast
  have u_stored: "isValidObjectId L aid \<and> updateAssignmentSchema L now ub = Inr (nt, nd, None) \<and>
          findAssignmentById d aid = Some a \<and> isOwnerOrAdmin cu a \<and> \<not> dueDate a > now - dayMs \<longrightarrow>
            updateAssignment L now (Some cu) aid ub d =
              (Inl (Failure 500 ''Failed to update assignment'' NoExtra), d)"
    using update_checks_stored_date[OF assms, of L aid now ub nt nd d a] by blast
  from chk c_old c_new u_old u_new u_stored show ?thesis by blast
qed

theorem dueDate_rule_witness:
  "canManage (Some (toAuthUser paul)) \<and> canManage (Some (toAuthUser quinn)) \<and>
   200000000 - dayMs = 113600000 \<and>
   parseDatetime sampleLib (caDueDate createOld) = Some 113600000 \<and>
   parseDatetime sampleLib (caDueDate createRecent) = Some 113600001 \<and>
   dueDateIssues sampleLib 200000000 ''113600000'' \<noteq> [] \<and>
   dueDateIssues sampleLib 200000000 ''113600001'' = [] \<and>
   (\<exists>issues. createAssignment sampleLib 200000000 idNew (Some (toAuthUser paul)) createOld sampleDb =
      (Inl (Failure 400 ''Validation failed'' (Details issues)), sampleDb)) \<and>
   (\<exists>resp. createAssignment sampleLib 200000000 idNew (Some (toAuthUser paul)) createRecent sampleDb =
      (Inr resp,
       sampleDb\<lparr>assignments := assignments sampleDb @
         [\<lparr> assignmentId = idNew, title = trim (caTitle createRecent),
            description = trim (caDescription createRecent), dueDate = 113600001,
            createdBy = auId (toAuthUser paul), submissions = [], createdAt = 200000000,
            updatedAt = 200000000 \<rparr>]\<rparr>)) \<and>
   (\<exists>issues. updateAssignment sampleLib 200000000 (Some (toAuthUser quinn)) idA2 updateOld sampleDb =
      (Inl (Failure 400 ''Validation failed'' (Details issues)), sampleDb)) \<and>
   (\<exists>resp saved. updateAssignment sampleLib 200000000 (Some (toAuthUser quinn)) idA2 updateRecent sampleDb =
      (Inr resp, replaceAssignment saved sampleDb) \<and> dueDate saved = 113600001 \<and>
      findAssignmentById (replaceAssignment saved sampleDb) idA2 = Some saved) \<and>
   findAssignmentById sampleDb idA1 = Some a1 \<and> dueDate a1 = 100000000 \<and>
   updateAssignment sampleLib 200000000 (Some (toAuthUser paul)) idA1 updateTitleOnly sampleDb =
     (Inl (Failure 500 ''Failed to update assignment'' NoExtra), sampleDb)"
proof -
  have p: "canManage (Some (toAuthUser paul))" by code_simp
  have q: "canManage (Some (toAuthUser quinn))" by code_simp
  have b: "200000000 - dayMs = 113600000" by (simp add: dayMs_def)
  have po: "parseDatetime sampleLib ''113600000'' = Some 113600000" by code_simp
  have pr: "parseDatetime sampleLib ''113600001'' = Some 113600001" by code_simp
  have co: "parseDatetime sampleLib (caDueDate createOld) = Some 113600000" by code_simp
  have cr: "parseDatetime sampleLib (caDueDate createRecent) = Some 113600001" by code_simp
  have old: "\<not> (113600000::int) > 200000000 - dayMs" by (simp add: dayMs_def)
  have new: "(113600001::int) > 200000000 - dayMs" by (simp add: dayMs_def)
  have hc: "titleIssues (caTitle createRecent) = [] \<and> descriptionIssues (caDescription createRecent) = [] \<and>
     titleValidator (trim (caTitle createRecent)) \<and> descriptionValidator (trim (caDescription createRecent)) \<and>
     isValidObjectId sampleLib (auId (toAuthUser paul)) \<and>
     findUserById sampleDb (auId (toAuthUser paul)) = Some paul \<and>
     (userRole paul = Professor \<or> userRole paul = Admin)"
    by code_simp
  have hu: "isValidObjectId sampleLib idA2 \<and> uaDueDate updateOld = Some ''113600000'' \<and>
     uaDueDate updateRecent = Some ''113600001'' \<and>
     (case uaTitle updateRecent of None \<Rightarrow> titleValidator (title a2)
      | Some t \<Rightarrow> titleIssues t = [] \<and> titleValidator (trim t)) \<and>
     (case uaDescription updateRecent of None \<Rightarrow> descriptionValidator (description a2)
      | Some t \<Rightarrow> descriptionIssues t = [] \<and> descriptionValidator (trim t)) \<and>
     list_all submissionValidator (submissions a2) \<and>
     findAssignmentById sampleDb idA2 = Some a2 \<and> isOwnerOrAdmin (toAuthUser quinn) a2 \<and>
     findUserById sampleDb (createdBy a2) = Some quinn"
    by code_simp
  have f1: "findAssignmentById sampleDb idA1 = Some a1" by code_simp
  have d1: "dueDate a1 = 100000000" by (simp add: a1_def)
  have hs: "isValidObjectId sampleLib idA1 \<and>
     updateAssignmentSchema sampleLib 200000000 updateTitleOnly = Inr (Some ''Essay one, revised'', None, None) \<and>
     isOwnerOrAdmin (toAuthUser paul) a1"
    by code_simp
  have od: "\<not> dueDate a1 > 200000000 - dayMs" by (simp add: a1_def dayMs_def)
  have i1: "dueDateIssues sampleLib 200000000 ''113600000'' \<noteq> []"
    using dueDate_not_more_than_a_day_old[OF p, where L = sampleLib and s = "''113600000''"
        and due = 113600000 and now = 200000000, THEN conjunct1] po old by blast
  have i2: "dueDateIssues sampleLib 200000000 ''113600001'' = []"
    using dueDate_not_more_than_a_day_old[OF p, where L = sampleLib and s = "''113600001''"
        and due = 113600001 and now = 200000000, THEN conjunct1] pr new by blast
  have c1: "\<exists>issues. createAssignment sampleLib 200000000 idNew (Some (toAuthUser paul)) createOld sampleDb =
      (Inl (Failure 400 ''Validation failed'' (Details issues)), sampleDb)"
    using dueDate_not_more_than_a_day_old[OF p, where L = sampleLib and cb = createOld
        and due = 113600000 and now = 200000000 and newId = idNew and d = sampleDb,
        THEN conjunct2, THEN conjunct1] co old by blast
  have c2: "\<exists>resp. createAssignment sampleLib 200000000 idNew (Some (toAuthUser paul)) createRecent sampleDb =
      (Inr resp,
       sampleDb\<lparr>assignments := assignments sampleDb @
         [\<lparr> assignmentId = idNew, title = trim (caTitle createRecent),
            description = trim (caDescription createRecent), dueDate = 113600001,
            createdBy = auId (toAuthUser paul), submissions = [], createdAt = 200000000,
            updatedAt = 200000000 \<rparr>]\<rparr>)"
    using dueDate_not_more_than_a_day_old[OF p, where L = sampleLib and cb = createRecent
        and due = 113600001 and now = 200000000 and newId = idNew and d = sampleDb and c = paul,
        THEN conjunct2, THEN conjunct2, THEN conjunct1] cr new hc by blast
  have c3: "\<exists>issues. updateAssignment sampleLib 200000000 (Some (toAuthUser quinn)) idA2 updateOld sampleDb =
      (Inl (Failure 400 ''Validation failed'' (Details issues)), sampleDb)"
    using dueDate_not_more_than_a_day_old[OF q, where L = sampleLib and ub = updateOld
        and s = "''113600000''" and due = 113600000 and now = 200000000 and aid = idA2 and d = sampleDb,
        THEN conjunct2, THEN conjunct2, THEN conjunct2, THEN conjunct1] po old hu by blast
  have c4: "\<exists>resp saved. updateAssignment sampleLib 200000000 (Some (toAuthUser quinn)) idA2 updateRecent sampleDb =
      (Inr resp, replaceAssignment saved sampleDb) \<and> dueDate saved = 113600001 \<and>
      findAssignmentById (replaceAssignment saved sampleDb) idA2 = Some saved"
    using dueDate_not_more_than_a_day_old[OF q, where L = sampleLib and ub = updateRecent
        and s = "''113600001''" and due = 113600001 and now = 200000000 and aid = idA2 and d = sampleDb
        and a = a2 and c' = quinn,
        THEN conjunct2, THEN conjunct2, THEN conjunct2, THEN conjunct2, THEN conjunct1] pr new hu by blast
  have c5: "updateAssignment sampleLib 200000000 (Some (toAuthUser paul)) idA1 updateTitleOnly sampleDb =
     (Inl (Failure 500 ''Failed to update assignment'' NoExtra), sampleDb)"
    using dueDate_not_more_than_a_day_old[OF p, where L = sampleLib and ub = updateTitleOnly
        and now = 200000000 and aid = idA1 and d = sampleDb and a = a1
        and nt = "Some ''Essay one, revised''" and nd = None,
        THEN conjunct2, THEN conjunct2, THEN conjunct2, THEN conjunct2, THEN conjunct2] hs f1 od by blast
  from p q b co cr i1 i2 c1 c2 c3 c4 f1 d1 c5 show ?thesis by blast
qed

subsection \<open>The listing\<close>

lemma set_sortAssignments: "set (sortAssignments sb so xs) = set xs"
  by (cases sb; cases so) (simp_all add: sortAssignments_def)

lemma mset_sortAssignments: "mset (sortAssignments sb so xs) = mset xs"
  by (cases sb; cases so) (simp_all add: sortAssignments_def)

lemma sorted_sortAssignments:
  "(sb = ByDueDate \<longrightarrow>
      (if so = Desc then sorted (rev (map dueDate (sortAssignments sb so xs)))
       else sorted (map dueDate (sortAssignments sb so xs)))) \<and>
   (sb = ByCreatedAt \<longrightarrow>
      (if so = Desc then sorted (rev (map createdAt (sortAssignments sb so xs)))
       else sorted (map createdAt (sortAssignments sb so xs)))) \<and>
   (sb = ByTitle \<longrightarrow>
      (if so = Desc then sorted (rev (map title (sortAssignments sb so xs)))
       else sorted (map title (sortAssignments sb so xs))))"
  by (cases sb; cases so) (simp_all add: sortAssignments_def rev_map)

lemma length_limitTo: "n \<noteq> 0 \<Longrightarrow> length (limitTo n xs) \<le> nat \<bar>n\<bar>"
  by (simp add: limitTo_def)

lemma set_limitTo: "set (limitTo n xs) \<subseteq> set xs"
  by (auto simp: limitTo_def dest: in_set_takeD)

lemma page_subset_matching:
  "set (limitTo limit (drop k (sortAssignments sb so (matching now cu st d)))) \<subseteq> set (matching now cu st d)"
  using set_limitTo[of limit "drop k (sortAssignments sb so (matching now cu st d))"]
    set_drop_subset[of k "sortAssignments sb so (matching now cu st d)"]
  by (auto simp: set_sortAssignments)

lemma whole_page:
  "k = 0 \<Longrightarrow> limit = 0 \<or> length xs \<le> nat \<bar>limit\<bar> \<Longrightarrow>
   limitTo limit (drop k (sortAssignments sb so xs)) = sortAssignments sb so xs"
  by (cases sb; cases so) (auto simp: limitTo_def sortAssignments_def)

lemma schema_parts:
  "assignmentQuerySchema q = Inr (page, limit, st, sb, so) \<Longrightarrow>
     parseStatus (qStatus q) = Some st \<and> parseSortBy (qSortBy q) = Some sb \<and>
     parseSortOrder (qSortOrder q) = Some so \<and>
     orDefault (qPage q) 1 = page \<and> orDefault (qLimit q) 10 = limit"
  by (auto simp: assignmentQuerySchema_def split: option.splits)

lemma matching_professor:
  "auRole cu = Professor \<Longrightarrow>
   matching now cu st d = filter (\<lambda>a. createdBy a = auId cu \<and> statusMatches now st a) (assignments d)"
  by (simp add: matching_def roleFilter_def)

lemma matching_not_professor:
  "auRole cu \<noteq> Professor \<Longrightarrow> matching now cu st d = filter (statusMatches now st) (assignments d)"
  by (simp add: matching_def roleFilter_def)

lemma matching_superset:
  "auRole adm \<noteq> Professor \<Longrightarrow> set (matching now p st d) \<subseteq> set (matching now adm st d)"
  by (auto simp: matching_def roleFilter_def)

text \<open>The listing is the page of the query, item by item.\<close>

lemma listing_is_page:
  assumes "getAssignments L now (Some cu) q d = Inr (items, pg)"
    and "parseStatus (qStatus q) = Some st" and "parseSortBy (qSortBy q) = Some sb"
    and "parseSortOrder (qSortOrder q) = Some so"
    and "orDefault (qPage q) 1 = Some page" and "orDefault (qLimit q) 10 = Some limit"
  shows "0 \<le> (page - 1) * limit \<and>
         list_all2 (\<lambda>a r. toListResponse now d a = Some r)
           (limitTo limit (drop (nat ((page - 1) * limit)) (sortAssignments sb so (matching now cu st d))))
           items \<and>
         pgPage pg = page \<and> pgLimit pg = limit \<and> pgTotal pg = length (matching now cu st d)"
proof -
  from getAssignments_items[OF assms(1)] obtain page' limit' st' sb' so' where
    s: "assignmentQuerySchema q = Inr (Some page', Some limit', st', sb', so')"
    and k: "0 \<le> (page' - 1) * limit'"
    and t: "those (map (toListResponse now d)
              (limitTo limit' (drop (nat ((page' - 1) * limit'))
                 (sortAssignments sb' so' (matching now cu st' d))))) = Some items"
    and p: "pgTotal pg = length (matching now cu st' d)" "pgPage pg = page'" "pgLimit pg = limit'"
    by blast
  from schema_parts[OF s] assms(2-6)
  have e: "st' = st" "sb' = sb" "so' = so" "page' = page" "limit' = limit" by simp_all
  from those_map_all2[OF t] k p show ?thesis unfolding e by simp
qed

lemma listing_whole:
  assumes "list_all2 (\<lambda>a r. toListResponse now d a = Some r)
             (limitTo limit (drop (nat k) (sortAssignments sb so xs))) items"
    and "k = 0" and "limit = 0 \<or> length xs \<le> nat \<bar>limit\<bar>"
  shows "map alId items = map assignmentId (sortAssignments sb so xs)"
proof -
  have w: "limitTo limit (drop (nat k) (sortAssignments sb so xs)) = sortAssignments sb so xs"
    using assms(2,3) by (intro whole_page) auto
  from assms(1) have "list_all2 (\<lambda>x y. assignmentId x = alId y) (sortAssignments sb so xs) items"
    unfolding w by (rule list_all2_mono) (auto dest: toListResponse_fields)
  from all2_map_eq[OF this] show ?thesis by simp
qed

text \<open>
  Claim C4, as stated, fails: the listing is one page of the query. With two stored
  assignments and one item per page, the admin's listing holds the first assignment
  only, so it does not contain all assignments, and it does not contain the listing
  that the second professor gets for the same query.
\<close>

theorem listing_page_counterexample:
  "map assignmentId (assignments sampleDb) = [idA1, idA2] \<and>
   auRole (toAuthUser ada) = Admin \<and> auRole (toAuthUser quinn) = Professor \<and>
   listedIds (getAssignments sampleLib 200000000 (Some (toAuthUser ada)) onePerPage sampleDb) = Inr [idA1] \<and>
   listedIds (getAssignments sampleLib 200000000 (Some (toAuthUser quinn)) onePerPage sampleDb) = Inr [idA2] \<and>
   idA2 \<notin> set [idA1]"
  by code_simp

text \<open>
  Claim C4, amended. A listing is one page of the assignments that match the filter of
  the query, sorted by the chosen field and direction: with \<open>page\<close> (default 1) and
  \<open>limit\<close> (default 10) it is, item by item, the sorted matching assignments after the
  first (page - 1) * limit, cut to at most \<open>limit\<close> of them (all of them for the limit
  0); \<open>total\<close> counts the matching assignments. When the page starts at 0 and its limit
  covers them, the listing contains exactly the matching assignments. For a professor
  the filter matches exactly the assignments whose creator is that professor and that
  satisfy the status filter, so a professor's listing never includes an assignment
  created by someone else. For a student or an admin it matches all assignments that
  satisfy the status filter (all assignments, for the status \<open>all\<close>), so under the
  same status filter the assignments matched for an admin are a superset of those
  matched for every professor.
\<close>

theorem listing_scoped_by_role:
  assumes "getAssignments L now (Some cu) q d = Inr (items, pg)"
    and "parseStatus (qStatus q) = Some st" and "parseSortBy (qSortBy q) = Some sb"
    and "parseSortOrder (qSortOrder q) = Some so"
    and "orDefault (qPage q) 1 = Some page" and "orDefault (qLimit q) 10 = Some limit"
  shows "(0 \<le> (page - 1) * limit \<and>
          list_all2 (\<lambda>a r. toListResponse now d a = Some r)
            (limitTo limit (drop (nat ((page - 1) * limit)) (sortAssignments sb so (matching now cu st d))))
            items \<and>
          map alId items =
            map assignmentId
              (limitTo limit (drop (nat ((page - 1) * limit)) (sortAssignments sb so (matching now cu st d)))) \<and>
          (limit \<noteq> 0 \<longrightarrow> length items \<le> nat \<bar>limit\<bar>) \<and>
          (qPage q = None \<longrightarrow> page = 1) \<and> (qLimit q = None \<longrightarrow> limit = 10) \<and>
          pgPage pg = page \<and> pgLimit pg = limit \<and> pgTotal pg = length (matching now cu st d)) \<and>
         (mset (sortAssignments sb so (matching now cu st d)) = mset (matching now cu st d) \<and>
          (sb = ByDueDate \<longrightarrow>
             (if so = Desc then sorted (rev (map dueDate (sortAssignments sb so (matching now cu st d))))
              else sorted (map dueDate (sortAssignments sb so (matching now cu st d))))) \<and>
          (sb = ByCreatedAt \<longrightarrow>
             (if so = Desc then sorted (rev (map createdAt (sortAssignments sb so (matching now cu st d))))
              else sorted (map createdAt (sortAssignments sb so (matching now cu st d))))) \<and>
          (sb = ByTitle \<longrightarrow>
             (if so = Desc then sorted (rev (map title (sortAssignments sb so (matching now cu st d))))
              else sorted (map title (sortAssignments sb so (matching now cu st d)))))) \<and>
         ((page - 1) * limit = 0 \<and> (limit = 0 \<or> length (matching now cu st d) \<le> nat \<bar>limit\<bar>) \<longrightarrow>
            map alId items = map assignmentId (sortAssignments sb so (matching now cu st d)) \<and>
            mset (map alId items) = mset (map assignmentId (matching now cu st d))) \<and>
         (auRole cu = Professor \<longrightarrow>
            matching now cu st d = filter (\<lambda>a. createdBy a = auId cu \<and> statusMatches now st a) (assignments d) \<and>
            (\<forall>r\<in>set items. ciId (alCreatedBy r) = auId cu)) \<and>
         (auRole cu \<noteq> Professor \<longrightarrow>
            matching now cu st d = filter (statusMatches now st) (assignments d) \<and>
            matching now cu AllStatus d = assignments d \<and>
            (\<forall>p. set (matching now p st d) \<subseteq> set (matching now cu st d)))"
proof -
  let ?M = "matching now cu st d"
  let ?S = "sortAssignments sb so ?M"
  let ?P = "limitTo limit (drop (nat ((page - 1) * limit)) ?S)"
  from listing_is_page[OF assms] have k: "0 \<le> (page - 1) * limit"
    and pg: "list_all2 (\<lambda>a r. toListResponse now d a = Some r) ?P items"
    and f: "pgPage pg = page" "pgLimit pg = limit" "pgTotal pg = length ?M"
    by blast+
  from pg have "list_all2 (\<lambda>x y. alId y = assignmentId x) ?P items"
    by (rule list_all2_mono) (auto dest: toListResponse_fields)
  then have "list_all2 (\<lambda>y x. alId y = assignmentId x) items ?P"
    by (simp add: list_all2_conv_all_nth)
  from all2_map_eq[OF this] have ids: "map alId items = map assignmentId ?P" .
  from pg have len: "length items = length ?P" by (simp add: list_all2_lengthD)
  have lim: "limit \<noteq> 0 \<longrightarrow> length items \<le> nat \<bar>limit\<bar>"
    using len length_limitTo[of limit "drop (nat ((page - 1) * limit)) ?S"] by simp
  have dp: "qPage q = None \<longrightarrow> page = 1" using assms(5) by (auto simp: orDefault_def)
  have dl: "qLimit q = None \<longrightarrow> limit = 10" using assms(6) by (auto simp: orDefault_def)
  have one: "0 \<le> (page - 1) * limit \<and>
          list_all2 (\<lambda>a r. toListResponse now d a = Some r) ?P items \<and>
          map alId items = map assignmentId ?P \<and>
          (limit \<noteq> 0 \<longrightarrow> length items \<le> nat \<bar>limit\<bar>) \<and>
          (qPage q = None \<longrightarrow> page = 1) \<and> (qLimit q = None \<longrightarrow> limit = 10) \<and>
          pgPage pg = page \<and> pgLimit pg = limit \<and> pgTotal pg = length ?M"
    using k pg ids lim dp dl f by (intro conjI)
  have two: "mset ?S = mset ?M \<and>
          (sb = ByDueDate \<longrightarrow>
             (if so = Desc then sorted (rev (map dueDate ?S)) else sorted (map dueDate ?S))) \<and>
          (sb = ByCreatedAt \<longrightarrow>
             (if so = Desc then sorted (rev (map createdAt ?S)) else sorted (map createdAt ?S))) \<and>
          (sb = ByTitle \<longrightarrow>
             (if so = Desc then sorted (rev (map title ?S)) else sorted (map title ?S)))"
    using mset_sortAssignments[of sb so ?M] sorted_sortAssignments[of sb so ?M] by (intro conjI) blast+
  have three: "(page - 1) * limit = 0 \<and> (limit = 0 \<or> length ?M \<le> nat \<bar>limit\<bar>) \<longrightarrow>
            map alId items = map assignmentId ?S \<and>
            mset (map alId items) = mset (map assignmentId ?M)"
  proof (intro impI)
    assume h: "(page - 1) * limit = 0 \<and> (limit = 0 \<or> length ?M \<le> nat \<bar>limit\<bar>)"
    then have w: "map alId items = map assignmentId ?S"
      using listing_whole[OF pg] by blast
    have "mset (map assignmentId ?S) = mset (map assignmentId ?M)"
      using mset_sortAssignments[of sb so ?M] by (metis mset_map)
    with w show "map alId items = map assignmentId ?S \<and>
            mset (map alId items) = mset (map assignmentId ?M)" by simp
  qed
  have i: "\<forall>r\<in>set items. \<exists>a\<in>set ?M. toListResponse now d a = Some r"
  proof
    fix r assume "r \<in> set items"
    from all2_set_right[OF pg this] obtain a where a: "a \<in> set ?P" "toListResponse now d a = Some r"
      by blast
    with page_subset_matching[of limit "nat ((page - 1) * limit)" sb so now cu st d]
    show "\<exists>a\<in>set ?M. toListResponse now d a = Some r" by blast
  qed
  have four: "auRole cu = Professor \<longrightarrow>
            ?M = filter (\<lambda>a. createdBy a = auId cu \<and> statusMatches now st a) (assignments d) \<and>
            (\<forall>r\<in>set items. ciId (alCreatedBy r) = auId cu)"
  proof (intro impI conjI ballI)
    assume pr: "auRole cu = Professor"
    then show m: "?M = filter (\<lambda>a. createdBy a = auId cu \<and> statusMatches now st a) (assignments d)"
      by (rule matching_professor)
    fix r assume "r \<in> set items"
    with i obtain a where a: "a \<in> set ?M" "toListResponse now d a = Some r" by blast
    from a(1) m have "createdBy a = auId cu" by simp
    with toListResponse_fields[OF a(2)] show "ciId (alCreatedBy r) = auId cu" by simp
  qed
  have five: "auRole cu \<noteq> Professor \<longrightarrow>
            ?M = filter (statusMatches now st) (assignments d) \<and>
            matching now cu AllStatus d = assignments d \<and>
            (\<forall>p. set (matching now p st d) \<subseteq> set ?M)"
  proof (intro impI conjI)
    assume np: "auRole cu \<noteq> Professor"
    then show "?M = filter (statusMatches now st) (assignments d)"
      by (rule matching_not_professor)
    show "matching now cu AllStatus d = assignments d"
      using np by (simp add: matching_not_professor statusMatches_def)
    show "\<forall>p. set (matching now p st d) \<subseteq> set ?M"
      using matching_superset[OF np] by blast
  qed
  show ?thesis
    by (rule conjI[OF one conjI[OF two conjI[OF three conjI[OF four five]]]])
qed

theorem listing_scoped_witness:
  "parseStatus (qStatus secondPage) = Some AllStatus \<and> parseSortBy (qSortBy secondPage) = Some ByDueDate \<and>
   parseSortOrder (qSortOrder secondPage) = Some Asc \<and>
   orDefault (qPage secondPage) 1 = Some 2 \<and> orDefault (qLimit secondPage) 10 = Some 1 \<and>
   orDefault (qPage defaultQuery) 1 = Some 1 \<and> orDefault (qLimit defaultQuery) 10 = Some 10 \<and>
   sortAssignments ByDueDate Asc (matching 200000000 (toAuthUser ada) AllStatus sampleDb) = [a1, a2] \<and>
   (\<exists>items pg. getAssignments sampleLib 200000000 (Some (toAuthUser ada)) secondPage sampleDb = Inr (items, pg) \<and>
      map alId items = [idA2] \<and> length items \<le> 1 \<and> pgPage pg = 2 \<and> pgLimit pg = 1 \<and> pgTotal pg = 2) \<and>
   (\<exists>items pg. getAssignments sampleLib 200000000 (Some (toAuthUser quinn)) defaultQuery sampleDb = Inr (items, pg) \<and>
      map alId items = [idA2] \<and> pgLimit pg = 10 \<and> pgTotal pg = 1 \<and>
      list_all (\<lambda>r. ciId (alCreatedBy r) = idQuinn) items) \<and>
   matching 200000000 (toAuthUser quinn) AllStatus sampleDb = [a2] \<and>
   (\<exists>items pg. getAssignments sampleLib 200000000 (Some (toAuthUser ada)) defaultQuery sampleDb = Inr (items, pg) \<and>
      map alId items = [idA1, idA2] \<and> pgTotal pg = 2) \<and>
   matching 200000000 (toAuthUser ada) AllStatus sampleDb = assignments sampleDb \<and>
   set (matching 200000000 (toAuthUser quinn) AllStatus sampleDb)
     \<subseteq> set (matching 200000000 (toAuthUser ada) AllStatus sampleDb)"
proof -
  have ps: "parseStatus (qStatus secondPage) = Some AllStatus" "parseSortBy (qSortBy secondPage) = Some ByDueDate"
    "parseSortOrder (qSortOrder secondPage) = Some Asc"
    "orDefault (qPage secondPage) 1 = Some 2" "orDefault (qLimit secondPage) 10 = Some 1"
    by code_simp+
  have pd: "parseStatus (qStatus defaultQuery) = Some AllStatus" "parseSortBy (qSortBy defaultQuery) = Some ByDueDate"
    "parseSortOrder (qSortOrder defaultQuery) = Some Asc"
    "orDefault (qPage defaultQuery) 1 = Some 1" "orDefault (qLimit defaultQuery) 10 = Some 10"
    by code_simp+
  have ok: "case getAssignments sampleLib 200000000 (Some (toAuthUser ada)) secondPage sampleDb of
              Inl f \<Rightarrow> False | Inr r \<Rightarrow> True"
    "case getAssignments sampleLib 200000000 (Some (toAuthUser quinn)) defaultQuery sampleDb of
              Inl f \<Rightarrow> False | Inr r \<Rightarrow> True"
    "case getAssignments sampleLib 200000000 (Some (toAuthUser ada)) defaultQuery sampleDb of
              Inl f \<Rightarrow> False | Inr r \<Rightarrow> True"
    by code_simp+
  from ok(1) obtain si sp where
    gs: "getAssignments sampleLib 200000000 (Some (toAuthUser ada)) secondPage sampleDb = Inr (si, sp)"
    by (auto split: sum.splits)
  from ok(2) obtain qi qp where
    gq: "getAssignments sampleLib 200000000 (Some (toAuthUser quinn)) defaultQuery sampleDb = Inr (qi, qp)"
    by (auto split: sum.splits)
  from ok(3) obtain ai ap where
    ga: "getAssignments sampleLib 200000000 (Some (toAuthUser ada)) defaultQuery sampleDb = Inr (ai, ap)"
    by (auto split: sum.splits)
  have roles: "auRole (toAuthUser quinn) = Professor" "auRole (toAuthUser ada) \<noteq> Professor"
    "auId (toAuthUser quinn) = idQuinn"
    by code_simp+
  have sa: "sortAssignments ByDueDate Asc (matching 200000000 (toAuthUser ada) AllStatus sampleDb) = [a1, a2]"
    and sq: "sortAssignments ByDueDate Asc (matching 200000000 (toAuthUser quinn) AllStatus sampleDb) = [a2]"
    and mq: "matching 200000000 (toAuthUser quinn) AllStatus sampleDb = [a2]"
    and ma0: "matching 200000000 (toAuthUser ada) AllStatus sampleDb = [a1, a2]"
    and ids: "assignmentId a1 = idA1" "assignmentId a2 = idA2"
    by code_simp+
  note S = listing_scoped_by_role[OF gs ps]
  note Q = listing_scoped_by_role[OF gq pd]
  note A = listing_scoped_by_role[OF ga pd]
  from S have s1: "map alId si =
      map assignmentId (limitTo 1 (drop (nat ((2 - 1) * 1))
         (sortAssignments ByDueDate Asc (matching 200000000 (toAuthUser ada) AllStatus sampleDb))))"
    and s2: "length si \<le> nat \<bar>1\<bar>" and s3: "pgPage sp = 2" "pgLimit sp = 1"
    and s4: "pgTotal sp = length (matching 200000000 (toAuthUser ada) AllStatus sampleDb)"
    by simp_all
  from s1 have s1': "map alId si = [idA2]" unfolding sa by (simp add: limitTo_def ids)
  from s2 have s2': "length si \<le> 1" by simp
  from s4 have s4': "pgTotal sp = 2" unfolding ma0 by simp
  from Q have q1: "map alId qi =
      map assignmentId (limitTo 10 (drop (nat ((1 - 1) * 10))
         (sortAssignments ByDueDate Asc (matching 200000000 (toAuthUser quinn) AllStatus sampleDb))))"
    and q3: "pgLimit qp = 10"
    and q4: "pgTotal qp = length (matching 200000000 (toAuthUser quinn) AllStatus sampleDb)"
    by simp_all
  from q1 have q1': "map alId qi = [idA2]" unfolding sq by (simp add: limitTo_def ids)
  from q4 have q4': "pgTotal qp = 1" unfolding mq by simp
  from Q roles have "\<forall>r\<in>set qi. ciId (alCreatedBy r) = idQuinn" by simp
  then have lq: "list_all (\<lambda>r. ciId (alCreatedBy r) = idQuinn) qi" by (simp add: list_all_iff)
  from A have a1': "map alId ai =
      map assignmentId (limitTo 10 (drop (nat ((1 - 1) * 10))
         (sortAssignments ByDueDate Asc (matching 200000000 (toAuthUser ada) AllStatus sampleDb))))"
    and a4: "pgTotal ap = length (matching 200000000 (toAuthUser ada) AllStatus sampleDb)"
    by simp_all
  from a1' have a1'': "map alId ai = [idA1, idA2]" unfolding sa by (simp add: limitTo_def ids)
  from a4 have a4': "pgTotal ap = 2" unfolding ma0 by simp
  from A roles(2) have ma: "matching 200000000 (toAuthUser ada) AllStatus sampleDb = assignments sampleDb"
    and sup: "set (matching 200000000 (toAuthUser quinn) AllStatus sampleDb)
               \<subseteq> set (matching 200000000 (toAuthUser ada) AllStatus sampleDb)"
    by blast+
  have e0: "\<exists>items pg. getAssignments sampleLib 200000000 (Some (toAuthUser ada)) secondPage sampleDb = Inr (items, pg) \<and>
      map alId items = [idA2] \<and> length items \<le> 1 \<and> pgPage pg = 2 \<and> pgLimit pg = 1 \<and> pgTotal pg = 2"
    by (rule exI[of _ si], rule exI[of _ sp]) (intro conjI gs s1' s2' s3 s4')
  have e1: "\<exists>items pg. getAssignments sampleLib 200000000 (Some (toAuthUser quinn)) defaultQuery sampleDb = Inr (items, pg) \<and>
      map alId items = [idA2] \<and> pgLimit pg = 10 \<and> pgTotal pg = 1 \<and>
      list_all (\<lambda>r. ciId (alCreatedBy r) = idQuinn) items"
    by (rule exI[of _ qi], rule exI[of _ qp]) (intro conjI gq q1' q3 q4' lq)
  have e2: "\<exists>items pg. getAssignments sampleLib 200000000 (Some (toAuthUser ada)) defaultQuery sampleDb = Inr (items, pg) \<and>
      map alId items = [idA1, idA2] \<and> pgTotal pg = 2"
    by (rule exI[of _ ai], rule exI[of _ ap]) (intro conjI ga a1'' a4')
  from ps pd(4,5) sa e0 e1 mq e2 ma sup show ?thesis by (intro conjI)
qed

subsection \<open>Upload validation\<close>

lemma sublist_size: "sublist ''File size exceeds'' ''File size exceeds 10MB limit''"
  by code_simp

lemma sublist_type:
  "sublist ''Invalid file type''
     ''Invalid file type. Allowed types: PDF, DOC, DOCX, TXT, JPG, PNG, GIF, WEBP, ZIP''"
  by code_simp

lemma validateFile_accepts_iff:
  "validateFile f = Inr True \<longleftrightarrow> fileSize f \<le> 10 * 1024 * 1024 \<and> mimeType f \<in> set allowedTypes"
  by (simp add: validateFile_def maxFileSize_def)

lemma validateFile_rejects:
  "\<not> (fileSize f \<le> 10 * 1024 * 1024 \<and> mimeType f \<in> set allowedTypes) \<Longrightarrow>
   \<exists>msg. validateFile f = Inl msg \<and> catchAssignmentUpload msg = Failure 400 msg NoExtra"
  using sublist_size sublist_type
  by (auto simp: validateFile_def maxFileSize_def catchAssignmentUpload_def)

lemma assignment_upload_rejected:
  assumes "auRole cu = Student" and "aid \<noteq> []" and "isValidObjectId L aid"
    and "findAssignmentById d aid = Some a" and "\<not> isOverdue now a"
    and "\<not> (fileSize f \<le> 10 * 1024 * 1024 \<and> mimeType f \<in> set allowedTypes)"
  shows "\<exists>msg. uploadAssignmentSubmission L cloud True now (Some cu) aid (Some f) d sent =
           (Inl (Failure 400 msg NoExtra), sent)"
proof -
  from validateFile_rejects[OF assms(6)] obtain msg where
    "validateFile f = Inl msg" "catchAssignmentUpload msg = Failure 400 msg NoExtra" by blast
  then show ?thesis using assms(1-5)
    by (simp add: uploadAssignmentSubmission_def extractFileFromRequest_def)
qed

lemma assignment_upload_accepted:
  assumes "auRole cu = Student" and "aid \<noteq> []" and "isValidObjectId L aid"
    and "findAssignmentById d aid = Some a" and "\<not> isOverdue now a"
    and "fileSize f \<le> 10 * 1024 * 1024 \<and> mimeType f \<in> set allowedTypes"
  shows "snd (uploadAssignmentSubmission L cloud True now (Some cu) aid (Some f) d sent) =
           sent @ [\<lparr> upBuffer = buffer f, upOriginalName = originalName f,
                      upFolder = ''social-media-platform/assignments/'' @ aid,
                      upPublicId = Some (auId cu, now), upResourceType = AutoResource \<rparr>]"
proof -
  from assms(6) have "validateFile f = Inr True" by (simp add: validateFile_accepts_iff)
  then show ?thesis using assms(1-5)
    by (simp add: uploadAssignmentSubmission_def extractFileFromRequest_def uploadAssignmentFile_def
          uploadToCloudinary_def split: sum.splits)
qed

lemma image_upload_rejected:
  assumes "\<not> (fileSize f \<le> 5 * 1024 * 1024 \<and> mimeType f \<in> set imageTypes)"
  shows "\<exists>msg. uploadPostImage cloud True now (Some cu) (Some f) sent = (Inl (Failure 400 msg NoExtra), sent)"
  using assms by (auto simp: uploadPostImage_def extractFileFromRequest_def maxImageSize_def)

lemma image_upload_accepted:
  assumes "fileSize f \<le> 5 * 1024 * 1024 \<and> mimeType f \<in> set imageTypes"
  shows "snd (uploadPostImage cloud True now (Some cu) (Some f) sent) =
           sent @ [\<lparr> upBuffer = buffer f, upOriginalName = originalName f,
                      upFolder = ''social-media-platform/posts/'' @ auId cu,
                      upPublicId = None, upResourceType = ImageResource \<rparr>]"
  using assms
  by (simp add: uploadPostImage_def extractFileFromRequest_def maxImageSize_def uploadPostImageService_def
        uploadToCloudinary_def split: sum.splits)

text \<open>
  Claim C9. \<open>validateFile\<close> accepts a file exactly when its size is at most 10MB and
  its MIME type is in the allow-list; the check of a post image accepts exactly when
  the size is at most 5MB and the type is one of the four image types. In both upload
  handlers (service configured, a file in the request; for a submission file a student,
  an existing assignment that is not overdue) an accepted file is forwarded to the
  storage service, and any other file is answered with status 400 and nothing is
  forwarded.
\<close>

theorem upload_validation_limits:
  "(validateFile f = Inr True \<longleftrightarrow> fileSize f \<le> 10 * 1024 * 1024 \<and> mimeType f \<in> set allowedTypes) \<and>
   (auRole cu = Student \<and> aid \<noteq> [] \<and> isValidObjectId L aid \<and> findAssignmentById d aid = Some a \<and>
    \<not> isOverdue now a \<longrightarrow>
      (if fileSize f \<le> 10 * 1024 * 1024 \<and> mimeType f \<in> set allowedTypes
       then snd (uploadAssignmentSubmission L cloud True now (Some cu) aid (Some f) d sent) =
              sent @ [\<lparr> upBuffer = buffer f, upOriginalName = originalName f,
                         upFolder = ''social-media-platform/assignments/'' @ aid,
                         upPublicId = Some (auId cu, now), upResourceType = AutoResource \<rparr>]
       else \<exists>msg. uploadAssignmentSubmission L cloud True now (Some cu) aid (Some f) d sent =
              (Inl (Failure 400 msg NoExtra), sent))) \<and>
   (if fileSize f \<le> 5 * 1024 * 1024 \<and> mimeType f \<in> set imageTypes
    then snd (uploadPostImage cloud True now (Some user) (Some f) sent) =
           sent @ [\<lparr> upBuffer = buffer f, upOriginalName = originalName f,
                      upFolder = ''social-media-platform/posts/'' @ auId user,
                      upPublicId = None, upResourceType = ImageResource \<rparr>]
    else \<exists>msg. uploadPostImage cloud True now (Some user) (Some f) sent =
           (Inl (Failure 400 msg NoExtra), sent))"
proof -
  have v: "validateFile f = Inr True \<longleftrightarrow> fileSize f \<le> 10 * 1024 * 1024 \<and> mimeType f \<in> set allowedTypes"
    by (rule validateFile_accepts_iff)
  have doc: "auRole cu = Student \<and> aid \<noteq> [] \<and> isValidObjectId L aid \<and> findAssignmentById d aid = Some a \<and>
    \<not> isOverdue now a \<longrightarrow>
      (if fileSize f \<le> 10 * 1024 * 1024 \<and> mimeType f \<in> set allowedTypes
       then snd (uploadAssignmentSubmission L cloud True now (Some cu) aid (Some f) d sent) =
              sent @ [\<lparr> upBuffer = buffer f, upOriginalName = originalName f,
                         upFolder = ''social-media-platform/assignments/'' @ aid,
                         upPublicId = Some (auId cu, now), upResourceType = AutoResource \<rparr>]
       else \<exists>msg. uploadAssignmentSubmission L cloud True now (Some cu) aid (Some f) d sent =
              (Inl (Failure 400 msg NoExtra), sent))"
  proof (cases "fileSize f \<le> 10 * 1024 * 1024 \<and> mimeType f \<in> set allowedTypes")
    case True
    then show ?thesis
      using assignment_upload_accepted[of cu aid L d a now f cloud sent] by presburger
  next
    case False
    then show ?thesis
      using assignment_upload_rejected[of cu aid L d a now f cloud sent] by presburger
  qed
  have img: "if fileSize f \<le> 5 * 1024 * 1024 \<and> mimeType f \<in> set imageTypes
    then snd (uploadPostImage cloud True now (Some user) (Some f) sent) =
           sent @ [\<lparr> upBuffer = buffer f, upOriginalName = originalName f,
                      upFolder = ''social-media-platform/posts/'' @ auId user,
                      upPublicId = None, upResourceType = ImageResource \<rparr>]
    else \<exists>msg. uploadPostImage cloud True now (Some user) (Some f) sent =
           (Inl (Failure 400 msg NoExtra), sent)"
  proof (cases "fileSize f \<le> 5 * 1024 * 1024 \<and> mimeType f \<in> set imageTypes")
    case True
    then show ?thesis
      using image_upload_accepted[of f cloud now user sent] by presburger
  next
    case False
    then show ?thesis
      using image_upload_rejected[of f cloud now user sent] by presburger
  qed
  from v doc img show ?thesis by (intro conjI)
qed

theorem upload_validation_witness:
  "validateFile pdfFile = Inr True \<and> validateFile exeFile \<noteq> Inr True \<and>
   auRole (toAuthUser sam) = Student \<and> findAssignmentById sampleDb idA2 = Some a2 \<and>
   \<not> isOverdue 200000000 a2 \<and>
   snd (uploadAssignmentSubmission sampleLib sampleCloud True 200000000 (Some (toAuthUser sam)) idA2
          (Some pdfFile) sampleDb []) =
     [\<lparr> upBuffer = buffer pdfFile, upOriginalName = originalName pdfFile,
        upFolder = ''social-media-platform/assignments/'' @ idA2,
        upPublicId = Some (auId (toAuthUser sam), 200000000), upResourceType = AutoResource \<rparr>] \<and>
   (\<exists>msg. uploadAssignmentSubmission sampleLib sampleCloud True 200000000 (Some (toAuthUser sam)) idA2
            (Some exeFile) sampleDb [] = (Inl (Failure 400 msg NoExtra), [])) \<and>
   fileSize pngFile = 5 * 1024 * 1024 \<and>
   snd (uploadPostImage sampleCloud True 200000000 (Some (toAuthUser sam)) (Some pngFile) []) =
     [\<lparr> upBuffer = buffer pngFile, upOriginalName = originalName pngFile,
        upFolder = ''social-media-platform/posts/'' @ auId (toAuthUser sam),
        upPublicId = None, upResourceType = ImageResource \<rparr>] \<and>
   (\<exists>msg. uploadPostImage sampleCloud True 200000000 (Some (toAuthUser sam)) (Some bigPngFile) [] =
            (Inl (Failure 400 msg NoExtra), [])) \<and>
   (\<exists>msg. uploadPostImage sampleCloud True 200000000 (Some (toAuthUser sam)) (Some pdfFile) [] =
            (Inl (Failure 400 msg NoExtra), []))"
proof -
  have pdf: "fileSize pdfFile \<le> 10 * 1024 * 1024 \<and> mimeType pdfFile \<in> set allowedTypes"
    by (simp add: pdfFile_def allowedTypes_def)
  have exe: "\<not> (fileSize exeFile \<le> 10 * 1024 * 1024 \<and> mimeType exeFile \<in> set allowedTypes)"
    by (simp add: exeFile_def allowedTypes_def)
  have png: "fileSize pngFile \<le> 5 * 1024 * 1024 \<and> mimeType pngFile \<in> set imageTypes"
    by (simp add: pngFile_def imageTypes_def)
  have big: "\<not> (fileSize bigPngFile \<le> 5 * 1024 * 1024 \<and> mimeType bigPngFile \<in> set imageTypes)"
    by (simp add: bigPngFile_def pngFile_def)
  have noimg: "\<not> (fileSize pdfFile \<le> 5 * 1024 * 1024 \<and> mimeType pdfFile \<in> set imageTypes)"
    by (simp add: pdfFile_def imageTypes_def)
  have sz: "fileSize pngFile = 5 * 1024 * 1024" by (simp add: pngFile_def)
  have h: "auRole (toAuthUser sam) = Student \<and> idA2 \<noteq> [] \<and> isValidObjectId sampleLib idA2 \<and>
           findAssignmentById sampleDb idA2 = Some a2 \<and> \<not> isOverdue 200000000 a2"
    by code_simp
  have v1: "validateFile pdfFile = Inr True"
    using upload_validation_limits[where f = pdfFile, THEN conjunct1] pdf by blast
  have v2: "validateFile exeFile \<noteq> Inr True"
    using upload_validation_limits[where f = exeFile, THEN conjunct1] exe by blast
  have d1: "snd (uploadAssignmentSubmission sampleLib sampleCloud True 200000000 (Some (toAuthUser sam)) idA2
          (Some pdfFile) sampleDb []) =
     [\<lparr> upBuffer = buffer pdfFile, upOriginalName = originalName pdfFile,
        upFolder = ''social-media-platform/assignments/'' @ idA2,
        upPublicId = Some (auId (toAuthUser sam), 200000000), upResourceType = AutoResource \<rparr>]"
    using upload_validation_limits[where f = pdfFile and cu = "toAuthUser sam" and aid = idA2
        and L = sampleLib and d = sampleDb and a = a2 and now = 200000000 and cloud = sampleCloud
        and sent = "[]", THEN conjunct2, THEN conjunct1] h pdf by simp
  have d2: "\<exists>msg. uploadAssignmentSubmission sampleLib sampleCloud True 200000000 (Some (toAuthUser sam)) idA2
            (Some exeFile) sampleDb [] = (Inl (Failure 400 msg NoExtra), [])"
    using upload_validation_limits[where f = exeFile and cu = "toAuthUser sam" and aid = idA2
        and L = sampleLib and d = sampleDb and a = a2 and now = 200000000 and cloud = sampleCloud
        and sent = "[]", THEN conjunct2, THEN conjunct1] h exe by simp
  have i1: "snd (uploadPostImage sampleCloud True 200000000 (Some (toAuthUser sam)) (Some pngFile) []) =
     [\<lparr> upBuffer = buffer pngFile, upOriginalName = originalName pngFile,
        upFolder = ''social-media-platform/posts/'' @ auId (toAuthUser sam),
        upPublicId = None, upResourceType = ImageResource \<rparr>]"
    using upload_validation_limits[where f = pngFile and user = "toAuthUser sam" and now = 200000000
        and cloud = sampleCloud and sent = "[]", THEN conjunct2, THEN conjunct2] png by simp
  have i2: "\<exists>msg. uploadPostImage sampleCloud True 200000000 (Some (toAuthUser sam)) (Some bigPngFile) [] =
            (Inl (Failure 400 msg NoExtra), [])"
    using upload_validation_limits[where f = bigPngFile and user = "toAuthUser sam" and now = 200000000
        and cloud = sampleCloud and sent = "[]", THEN conjunct2, THEN conjunct2] big by simp
  have i3: "\<exists>msg. uploadPostImage sampleCloud True 200000000 (Some (toAuthUser sam)) (Some pdfFile) [] =
            (Inl (Failure 400 msg NoExtra), [])"
    using upload_validation_limits[where f = pdfFile and user = "toAuthUser sam" and now = 200000000
        and cloud = sampleCloud and sent = "[]", THEN conjunct2, THEN conjunct2] noimg by simp
  from v1 v2 h d1 d2 sz i1 i2 i3 show ?thesis by (intro conjI) blast+
qed

end
